theory Spec2Isabelle
  imports Complex_Main "HOL-Library.AList"
begin

section \<open>JavaScript numbers\<close>

text \<open>
  A JavaScript number is a finite value, one of the two infinities, or NaN. Finite
  doubles are read as the reals they denote: the rounding of double arithmetic and the
  sign of zero are not modelled. The operators below are the ones the class applies to
  the wind speed (\<open>*\<close>, \<open>-\<close>, \<open><\<close>, \<open>>\<close>, \<open>>=\<close>), with the results
  ECMAScript gives them on non-finite operands.
\<close>

datatype number = Fin real | PosInf | NegInf | NaN

fun num_mul :: "number \<Rightarrow> number \<Rightarrow> number" where
  "num_mul NaN _ = NaN"
| "num_mul _ NaN = NaN"
| "num_mul (Fin x) (Fin y) = Fin (x * y)"
| "num_mul (Fin x) PosInf = (if x = 0 then NaN else if 0 < x then PosInf else NegInf)"
| "num_mul (Fin x) NegInf = (if x = 0 then NaN else if 0 < x then NegInf else PosInf)"
| "num_mul PosInf (Fin y) = (if y = 0 then NaN else if 0 < y then PosInf else NegInf)"
| "num_mul NegInf (Fin y) = (if y = 0 then NaN else if 0 < y then NegInf else PosInf)"
| "num_mul PosInf PosInf = PosInf"
| "num_mul PosInf NegInf = NegInf"
| "num_mul NegInf PosInf = NegInf"
| "num_mul NegInf NegInf = PosInf"

fun num_sub :: "number \<Rightarrow> number \<Rightarrow> number" where
  "num_sub NaN _ = NaN"
| "num_sub _ NaN = NaN"
| "num_sub (Fin x) (Fin y) = Fin (x - y)"
| "num_sub (Fin x) PosInf = NegInf"
| "num_sub (Fin x) NegInf = PosInf"
| "num_sub PosInf PosInf = NaN"
| "num_sub PosInf _ = PosInf"
| "num_sub NegInf NegInf = NaN"
| "num_sub NegInf _ = NegInf"

fun num_lt :: "number \<Rightarrow> number \<Rightarrow> bool" where
  "num_lt (Fin x) (Fin y) = (x < y)"
| "num_lt (Fin x) PosInf = True"
| "num_lt NegInf (Fin y) = True"
| "num_lt NegInf PosInf = True"
| "num_lt _ _ = False"

definition num_gt :: "number \<Rightarrow> number \<Rightarrow> bool" where
  "num_gt a b = num_lt b a"

definition num_ge :: "number \<Rightarrow> number \<Rightarrow> bool" where
  "num_ge a b = (a \<noteq> NaN \<and> b \<noteq> NaN \<and> \<not> num_lt a b)"

text \<open>
  \<open>Number(x.toFixed())\<close>: \<open>toFixed\<close> with no argument keeps zero fraction digits and
  picks the nearest integer, the one farther from zero on a tie; NaN and the infinities
  print as their names, which \<open>Number\<close> reads back. (From \<open>10\<^sup>2\<^sup>1\<close> on, \<open>toFixed\<close> prints
  the number itself; every double of that size is an integer already.)
\<close>

definition roundHalfAway :: "real \<Rightarrow> int" where
  "roundHalfAway x = (if x < 0 then - \<lfloor>- x + 1 / 2\<rfloor> else \<lfloor>x + 1 / 2\<rfloor>)"

fun toFixedNumber :: "number \<Rightarrow> number" where
  "toFixedNumber (Fin x) = Fin (of_int (roundHalfAway x))"
| "toFixedNumber n = n"

section \<open>The decomposition loop\<close>

record Barbs =
  b50 :: nat
  b10 :: nat
  b5 :: nat

text \<open>
  The \<open>for (let k = knots; k > 0; )\<close> loop of \<open>getBarbs\<close>. It need not end (on
  \<open>Infinity\<close> it never does), so the result is an option: \<open>None\<close> is a run that never
  returns.
\<close>

partial_function (option) barbLoop :: "number \<Rightarrow> Barbs \<Rightarrow> Barbs option" where
  "barbLoop k res =
     (if num_gt k (Fin 0) then
        (if num_ge (num_sub k (Fin 50)) (Fin 0) then
           barbLoop (num_sub k (Fin 50)) (res\<lparr>b50 := b50 res + 1\<rparr>)
         else if num_ge (num_sub k (Fin 10)) (Fin 0) then
           barbLoop (num_sub k (Fin 10)) (res\<lparr>b10 := b10 res + 1\<rparr>)
         else if num_ge (num_sub k (Fin 5)) (Fin 0) then
           barbLoop (num_sub k (Fin 5)) (res\<lparr>b5 := b5 res + 1\<rparr>)
         else Some res)
      else Some res)"


section \<open>Options\<close>

text \<open>
  The option objects of \<open>d3-wind-barbs.ts\<close>. Their numbers are taken finite (reals).
  A \<open>DeepPartial\<close> object is a record of optional fields, \<open>None\<close> for a key that is
  absent.
\<close>

record WindBarbSize =
  width :: real
  height :: real

record WindBarbBar =
  bar_stroke :: string
  bar_width :: real
  bar_angle :: real
  bar_padding :: real
  fullBarClassName :: string
  shortBarClassName :: string

record WindBarbTriangle =
  triangle_stroke :: string
  triangle_fill :: string
  triangle_padding :: real
  triangle_className :: string

record WindBarbCircle =
  circle_stroke :: string
  circle_fill :: string
  radius :: real
  strokeWidth :: real
  circle_className :: string

record WindBarbDims =
  barHeight :: real
  triangleHeight :: real
  triangleWidth :: real

record PartialSize =
  p_width :: "real option"
  p_height :: "real option"

record PartialBar =
  p_bar_stroke :: "string option"
  p_bar_width :: "real option"
  p_bar_angle :: "real option"
  p_bar_padding :: "real option"
  p_fullBarClassName :: "string option"
  p_shortBarClassName :: "string option"

record PartialTriangle =
  p_triangle_stroke :: "string option"
  p_triangle_fill :: "string option"
  p_triangle_padding :: "real option"
  p_triangle_className :: "string option"

record PartialCircle =
  p_circle_stroke :: "string option"
  p_circle_fill :: "string option"
  p_radius :: "real option"
  p_strokeWidth :: "real option"
  p_circle_className :: "string option"

record PublicWindBarbOptions =
  pSize :: "PartialSize option"
  pRootBarClassName :: "string option"
  pSvgId :: "string option"
  pConversionFactor :: "real option"
  pBar :: "PartialBar option"
  pTriangle :: "PartialTriangle option"
  pCircle :: "PartialCircle option"

text \<open>
  \<open>Omit<PrivateWindBarbOptions, 'dims'>\<close>, then \<open>PrivateWindBarbOptions\<close>. The type says
  \<open>rootBarClassName\<close> is a string; \<open>mergeOptions\<close> never copies that key, so at run
  time it can be \<open>undefined\<close>, which is \<open>None\<close> here.
\<close>

record Config =
  size_opt :: WindBarbSize
  rootBarClassName :: "string option"
  svgId :: string
  bar :: WindBarbBar
  conversionFactor :: real
  triangle :: WindBarbTriangle
  circle :: WindBarbCircle

record PrivateWindBarbOptions = Config +
  dims :: WindBarbDims

definition DEFAULT_CONFIG :: Config where
  "DEFAULT_CONFIG =
     \<lparr>size_opt = \<lparr>width = 80, height = 33\<rparr>,
      rootBarClassName = Some ''wind-barb-root'',
      svgId = [],
      bar = \<lparr>bar_stroke = ''#000'', bar_width = 2, bar_angle = 30, bar_padding = 6,
        fullBarClassName = ''wind-barb-bar-full'', shortBarClassName = ''wind-barb-bar-half''\<rparr>,
      conversionFactor = 1,
      triangle = \<lparr>triangle_stroke = ''#000'', triangle_fill = ''#000'', triangle_padding = 6,
        triangle_className = ''wind-barb-triangle''\<rparr>,
      circle = \<lparr>circle_stroke = ''#000'', circle_fill = ''#FFFFFF00'', radius = 10,
        strokeWidth = 2, circle_className = ''wind-barb-circle''\<rparr>\<rparr>"

text \<open>\<open>p ?? d\<close>, and one key of a spread \<open>{...d, ...p}\<close>.\<close>

definition nullish :: "'a option \<Rightarrow> 'a \<Rightarrow> 'a" where
  "nullish p d = (case p of None \<Rightarrow> d | Some v \<Rightarrow> v)"

definition spreadSize :: "WindBarbSize \<Rightarrow> PartialSize option \<Rightarrow> WindBarbSize" where
  "spreadSize d p = (case p of None \<Rightarrow> d | Some q \<Rightarrow>
     \<lparr>width = nullish (p_width q) (width d), height = nullish (p_height q) (height d)\<rparr>)"

definition spreadBar :: "WindBarbBar \<Rightarrow> PartialBar option \<Rightarrow> WindBarbBar" where
  "spreadBar d p = (case p of None \<Rightarrow> d | Some q \<Rightarrow>
     \<lparr>bar_stroke = nullish (p_bar_stroke q) (bar_stroke d),
      bar_width = nullish (p_bar_width q) (bar_width d),
      bar_angle = nullish (p_bar_angle q) (bar_angle d),
      bar_padding = nullish (p_bar_padding q) (bar_padding d),
      fullBarClassName = nullish (p_fullBarClassName q) (fullBarClassName d),
      shortBarClassName = nullish (p_shortBarClassName q) (shortBarClassName d)\<rparr>)"

definition spreadTriangle :: "WindBarbTriangle \<Rightarrow> PartialTriangle option \<Rightarrow> WindBarbTriangle" where
  "spreadTriangle d p = (case p of None \<Rightarrow> d | Some q \<Rightarrow>
     \<lparr>triangle_stroke = nullish (p_triangle_stroke q) (triangle_stroke d),
      triangle_fill = nullish (p_triangle_fill q) (triangle_fill d),
      triangle_padding = nullish (p_triangle_padding q) (triangle_padding d),
      triangle_className = nullish (p_triangle_className q) (triangle_className d)\<rparr>)"

definition spreadCircle :: "WindBarbCircle \<Rightarrow> PartialCircle option \<Rightarrow> WindBarbCircle" where
  "spreadCircle d p = (case p of None \<Rightarrow> d | Some q \<Rightarrow>
     \<lparr>circle_stroke = nullish (p_circle_stroke q) (circle_stroke d),
      circle_fill = nullish (p_circle_fill q) (circle_fill d),
      radius = nullish (p_radius q) (radius d),
      strokeWidth = nullish (p_strokeWidth q) (strokeWidth d),
      circle_className = nullish (p_circle_className q) (circle_className d)\<rparr>)"

definition getSizes :: "Config \<Rightarrow> WindBarbDims" where
  "getSizes opts =
     (let h = height (size_opt opts);
          C = ((90 - bar_angle (bar opts)) * pi) / 180;
          b = h * sin C;
          ct = h * cos C
      in \<lparr>barHeight = h, triangleHeight = b, triangleWidth = ct\<rparr>)"

definition mergeOptions :: "PublicWindBarbOptions option \<Rightarrow> PrivateWindBarbOptions" where
  "mergeOptions opts =
     (let privateOptions =
        \<lparr>size_opt = spreadSize (size_opt DEFAULT_CONFIG) (Option.bind opts pSize),
         rootBarClassName = None,
         svgId = nullish (Option.bind opts pSvgId) (svgId DEFAULT_CONFIG),
         bar = spreadBar (bar DEFAULT_CONFIG) (Option.bind opts pBar),
         conversionFactor =
           nullish (Option.bind opts pConversionFactor) (conversionFactor DEFAULT_CONFIG),
         triangle = spreadTriangle (triangle DEFAULT_CONFIG) (Option.bind opts pTriangle),
         circle = spreadCircle (circle DEFAULT_CONFIG) (Option.bind opts pCircle)\<rparr>;
          d = getSizes privateOptions
      in \<lparr>size_opt = size_opt privateOptions,
          rootBarClassName = rootBarClassName privateOptions,
          svgId = svgId privateOptions,
          bar = bar privateOptions,
          conversionFactor = conversionFactor privateOptions,
          triangle = triangle privateOptions,
          circle = circle privateOptions,
          dims = d\<rparr>)"

section \<open>The DOM and the d3 calls\<close>

text \<open>
  Elements live in a store: an address is an index into the list of nodes, and a new
  element takes the next index. An attribute value is the string or number the code
  passes; a template literal is kept as its pieces, the interpolated numbers unprinted.
\<close>

datatype piece = Lit string | Val real

datatype attr_val = Str string | Num real | Tmpl "piece list"

record node =
  tag :: string
  attrs :: "(string \<times> attr_val) list"
  kids :: "nat list"

text \<open>\<open>create(name)\<close>: a detached element.\<close>

definition create :: "string \<Rightarrow> node list \<Rightarrow> nat \<times> node list" where
  "create t h = (length h, h @ [\<lparr>tag = t, attrs = [], kids = []\<rparr>])"

text \<open>
  \<open>selection.attr(name, value)\<close> on one element: \<open>null\<close> or \<open>undefined\<close> removes the
  attribute, anything else sets it (\<open>setAttr\<close> is the change to the element itself).
\<close>

definition setAttr :: "string \<Rightarrow> attr_val option \<Rightarrow> node \<Rightarrow> node" where
  "setAttr k v n =
     n\<lparr>attrs := (case v of None \<Rightarrow> AList.delete k (attrs n)
                 | Some x \<Rightarrow> AList.update k x (attrs n))\<rparr>"

definition attr :: "nat \<Rightarrow> string \<Rightarrow> attr_val option \<Rightarrow> node list \<Rightarrow> node list" where
  "attr a k v h = h[a := setAttr k v (h ! a)]"

text \<open>\<open>selection.append(name)\<close> on one element: a new last child.\<close>

definition append_sel :: "nat \<Rightarrow> string \<Rightarrow> node list \<Rightarrow> nat \<times> node list" where
  "append_sel p t h =
     (length h,
      h[p := (h ! p)\<lparr>kids := kids (h ! p) @ [length h]\<rparr>] @ [\<lparr>tag = t, attrs = [], kids = []\<rparr>])"

text \<open>
  \<open>selectAll(name).data(data).enter().append(name)\<close> on an element with no children:
  one new child for each datum, in order.
\<close>

fun enterAppend :: "nat \<Rightarrow> string \<Rightarrow> 'a list \<Rightarrow> node list \<Rightarrow> nat list \<times> node list" where
  "enterAppend p t [] h = ([], h)"
| "enterAppend p t (x # xs) h =
     (let (c, h1) = append_sel p t h; (cs, h2) = enterAppend p t xs h1 in (c # cs, h2))"

text \<open>\<open>attr(name, (_, i) => f(i))\<close> on a selection: each element gets the value at its index.\<close>

fun attrEach ::
  "nat list \<Rightarrow> nat \<Rightarrow> string \<Rightarrow> (nat \<Rightarrow> attr_val option) \<Rightarrow> node list \<Rightarrow> node list" where
  "attrEach [] i k f h = h"
| "attrEach (a # as) i k f h = attrEach as (Suc i) k f (attr a k (f i) h)"

text \<open>\<open>range(q)\<close> for a count \<open>q\<close>.\<close>

definition range_d3 :: "nat \<Rightarrow> nat list" where
  "range_d3 q = [0..<q]"

text \<open>
  \<open>parent.appendChild(child)\<close>: the child leaves the parent it had and becomes the last
  child of the new one. (The calls are taken to succeed: a selector the browser cannot
  parse, or a container inside the svg itself, would raise in the DOM and is left out.)
\<close>

definition appendChild :: "nat \<Rightarrow> nat \<Rightarrow> node list \<Rightarrow> node list" where
  "appendChild p c h =
     (let h1 = map (\<lambda>n. n\<lparr>kids := removeAll c (kids n)\<rparr>) h
      in h1[p := (h1 ! p)\<lparr>kids := kids (h1 ! p) @ [c]\<rparr>])"

section \<open>The class D3WindBarb\<close>

text \<open>
  The class as the first copy of \<open>d3-wind-barbs.ts\<close> has it; the second copy differs in
  one place, the group's \<open>transform-origin\<close>, written with \<open>%\<close> where the first has
  \<open>px\<close>. The fields are assigned in the constructor only: the methods change the store,
  never the instance. \<open>svg\<close> is the address of the root element. The angle is taken
  finite.
\<close>

record D3WindBarb =
  speed :: number
  angle :: real
  options :: "PublicWindBarbOptions option"
  fullOptions :: PrivateWindBarbOptions
  svg :: nat

definition createSvg :: "PrivateWindBarbOptions \<Rightarrow> node list \<Rightarrow> nat \<times> node list" where
  "createSvg fo h =
     (let w = width (size_opt fo); ht = height (size_opt fo);
          (s, h) = create ''svg'' h;
          h = attr s ''viewBox'' (Some (Tmpl [Lit ''0 0 '', Val w, Lit '' '', Val ht])) h;
          h = attr s ''preserveAspectRatio'' (Some (Str ''xMidYMid meet'')) h;
          h = attr s ''width'' (Some (Num w)) h;
          h = attr s ''height'' (Some (Num ht)) h;
          h = attr s ''overflow'' (Some (Str ''visible'')) h;
          h = (if svgId fo \<noteq> [] then attr s ''id'' (Some (Str (svgId fo))) h else h)
      in (s, h))"

definition new_D3WindBarb ::
  "number \<Rightarrow> real \<Rightarrow> PublicWindBarbOptions option \<Rightarrow> node list \<Rightarrow> D3WindBarb \<times> node list" where
  "new_D3WindBarb sp a opts h =
     (let fo = mergeOptions opts; (s, h1) = createSvg fo h
      in (\<lparr>speed = sp, angle = a, options = opts, fullOptions = fo, svg = s\<rparr>, h1))"

definition knots :: "D3WindBarb \<Rightarrow> number" where
  "knots w = toFixedNumber (num_mul (speed w) (Fin (conversionFactor (fullOptions w))))"

text \<open>
  \<open>getBarbs\<close>: \<open>None\<close> when the loop never returns, \<open>Some None\<close> for \<open>undefined\<close>,
  \<open>Some (Some res)\<close> for the counts.
\<close>

definition getBarbs :: "D3WindBarb \<Rightarrow> Barbs option option" where
  "getBarbs w =
     (let res = \<lparr>b50 = 0, b10 = 0, b5 = 0\<rparr>
      in if num_lt (knots w) (Fin 5) then Some None
         else map_option Some (barbLoop (knots w) res))"

definition drawCircle :: "D3WindBarb \<Rightarrow> node list \<Rightarrow> node list" where
  "drawCircle w h =
     (let wd = width (size_opt (fullOptions w)); ht = height (size_opt (fullOptions w));
          c = circle (fullOptions w);
          (e, h) = append_sel (svg w) ''circle'' h;
          h = attr e ''r'' (Some (Num (radius c))) h;
          h = attr e ''cx'' (Some (Num (wd / 2))) h;
          h = attr e ''cy'' (Some (Num (ht / 2))) h;
          h = attr e ''stroke'' (Some (Str (circle_stroke c))) h;
          h = attr e ''fill'' (Some (Str (circle_fill c))) h;
          h = attr e ''stroke-width'' (Some (Num (strokeWidth c))) h;
          h = attr e ''class'' (Some (Str (circle_className c))) h
      in h)"

text \<open>The \<open>initialX\<close> of \<open>drawPath\<close>, then \<open>drawPath\<close> itself.\<close>

definition initialX :: "D3WindBarb \<Rightarrow> nat \<Rightarrow> real" where
  "initialX w index =
     width (size_opt (fullOptions w)) -
       (triangleWidth (dims (fullOptions w)) + triangle_padding (triangle (fullOptions w))) * real index"

definition drawPath :: "D3WindBarb \<Rightarrow> nat \<Rightarrow> attr_val" where
  "drawPath w index =
     (let ht = height (size_opt (fullOptions w));
          tw = triangleWidth (dims (fullOptions w));
          th = triangleHeight (dims (fullOptions w))
      in Tmpl [Lit ''M'', Val (initialX w index), Lit '', '', Val ht, Lit '', '',
           Val (initialX w index - tw), Lit '', '', Val ht, Lit '', '', Val (initialX w index),
           Lit '', '', Val (ht - th), Lit ''z''])"

definition drawTriangles :: "D3WindBarb \<Rightarrow> nat \<Rightarrow> nat \<Rightarrow> node list \<Rightarrow> node list" where
  "drawTriangles w q container h =
     (let t = triangle (fullOptions w);
          data = range_d3 q;
          (g, h) = append_sel container ''g'' h;
          (sel, h) = enterAppend g ''path'' data h;
          h = attrEach sel 0 ''d'' (\<lambda>i. Some (drawPath w i)) h;
          h = attrEach sel 0 ''stroke'' (\<lambda>i. Some (Str (triangle_stroke t))) h;
          h = attrEach sel 0 ''fill'' (\<lambda>i. Some (Str (triangle_fill t))) h;
          h = attrEach sel 0 ''class'' (\<lambda>i. Some (Str (triangle_className t))) h
      in h)"

text \<open>The x coordinate both bar methods compute, \<open>width - (right + i * (barWidth + padding))\<close>.\<close>

definition barX :: "D3WindBarb \<Rightarrow> real \<Rightarrow> nat \<Rightarrow> real" where
  "barX w right i =
     width (size_opt (fullOptions w)) -
       (right + real i * (bar_width (bar (fullOptions w)) + bar_padding (bar (fullOptions w))))"

definition drawFullBars :: "D3WindBarb \<Rightarrow> nat \<Rightarrow> nat \<Rightarrow> real \<Rightarrow> node list \<Rightarrow> node list" where
  "drawFullBars w q container right h =
     (let ht = height (size_opt (fullOptions w));
          b = bar (fullOptions w);
          bh = barHeight (dims (fullOptions w));
          data = range_d3 q;
          (g, h) = append_sel container ''g'' h;
          (sel, h) = enterAppend g ''line'' data h;
          h = attrEach sel 0 ''x1'' (\<lambda>i. Some (Num (barX w right i))) h;
          h = attrEach sel 0 ''y1'' (\<lambda>i. Some (Num ht)) h;
          h = attrEach sel 0 ''x2'' (\<lambda>i. Some (Num (barX w right i))) h;
          h = attrEach sel 0 ''y2'' (\<lambda>i. Some (Num (ht - bh))) h;
          h = attrEach sel 0 ''stroke'' (\<lambda>i. Some (Str (bar_stroke b))) h;
          h = attrEach sel 0 ''stroke-width'' (\<lambda>i. Some (Num (bar_width b))) h;
          h = attrEach sel 0 ''class'' (\<lambda>i. Some (Str (fullBarClassName b))) h;
          h = attrEach sel 0 ''transform-origin''
                (\<lambda>i. Some (Tmpl [Val (barX w right i), Lit '' '', Val ht])) h;
          h = attrEach sel 0 ''transform''
                (\<lambda>i. Some (Tmpl [Lit ''rotate('', Val (bar_angle b), Lit '')''])) h
      in h)"

definition drawHalfBars :: "D3WindBarb \<Rightarrow> nat \<Rightarrow> nat \<Rightarrow> real \<Rightarrow> node list \<Rightarrow> node list" where
  "drawHalfBars w q container right h =
     (let ht = height (size_opt (fullOptions w));
          b = bar (fullOptions w);
          bh = barHeight (dims (fullOptions w));
          data = range_d3 q;
          (g, h) = append_sel container ''g'' h;
          (sel, h) = enterAppend g ''line'' data h;
          h = attrEach sel 0 ''x1'' (\<lambda>i. Some (Num (barX w right i))) h;
          h = attrEach sel 0 ''y1'' (\<lambda>i. Some (Num ht)) h;
          h = attrEach sel 0 ''x2'' (\<lambda>i. Some (Num (barX w right i))) h;
          h = attrEach sel 0 ''y2'' (\<lambda>i. Some (Num (ht - bh / 2))) h;
          h = attrEach sel 0 ''stroke'' (\<lambda>i. Some (Str (bar_stroke b))) h;
          h = attrEach sel 0 ''stroke-width'' (\<lambda>i. Some (Num (bar_width b))) h;
          h = attrEach sel 0 ''class'' (\<lambda>i. Some (Str (shortBarClassName b))) h;
          h = attrEach sel 0 ''transform-origin''
                (\<lambda>i. Some (Tmpl [Val (barX w right i), Lit '' '', Val ht])) h;
          h = attrEach sel 0 ''transform''
                (\<lambda>i. Some (Tmpl [Lit ''rotate('', Val (bar_angle b), Lit '')''])) h
      in h)"

definition drawBarbs :: "D3WindBarb \<Rightarrow> Barbs \<Rightarrow> node list \<Rightarrow> nat \<times> node list" where
  "drawBarbs w barbs h =
     (let ht = height (size_opt (fullOptions w)); wd = width (size_opt (fullOptions w));
          barWidth = bar_width (bar (fullOptions w));
          barPadding = bar_padding (bar (fullOptions w));
          tw = triangleWidth (dims (fullOptions w));
          trianglePadding = triangle_padding (triangle (fullOptions w));
          (container, h) = append_sel (svg w) ''g'' h;
          (ln, h) = append_sel container ''line'' h;
          h = attr ln ''x1'' (Some (Num 0)) h;
          h = attr ln ''y1'' (Some (Num ht)) h;
          h = attr ln ''x2'' (Some (Num wd)) h;
          h = attr ln ''y2'' (Some (Num ht)) h;
          h = attr ln ''stroke-width'' (Some (Num barWidth)) h;
          h = attr ln ''stroke'' (Some (Str (bar_stroke (bar (fullOptions w))))) h;
          h = attr ln ''class'' (map_option Str (rootBarClassName (fullOptions w))) h;
          h = (if b50 barbs \<noteq> 0 then drawTriangles w (b50 barbs) container h else h);
          h = (if b10 barbs \<noteq> 0
               then drawFullBars w (b10 barbs) container
                      (real (b50 barbs) * (tw + trianglePadding)) h
               else h);
          h = (if b5 barbs \<noteq> 0
               then drawHalfBars w (b5 barbs) container
                      (real (b50 barbs) * (tw + trianglePadding) +
                       real (b10 barbs) * (barPadding + barWidth)) h
               else h);
          h = attr container ''transform-origin''
                (Some (Tmpl [Val (wd / 2), Lit ''px '', Val ht, Lit ''px''])) h;
          h = attr container ''transform''
                (Some (Tmpl [Lit ''translate(0, '', Val (- ht / 2), Lit '')''])) h;
          h = attr container ''transform''
                (Some (Tmpl [Lit ''translate(0, '', Val (- ht / 2), Lit '')rotate('',
                   Val (- 90 + angle w), Lit '')''])) h
      in (container, h))"

text \<open>
  \<open>draw(container)\<close>. \<open>qs\<close> stands for \<open>document.querySelector\<close>, which d3's
  \<open>select(string)\<close> calls: the element a selector finds in the current store, if any.
  \<open>None\<close> is a call that never returns.
\<close>

definition draw ::
  "(node list \<Rightarrow> string \<Rightarrow> nat option) \<Rightarrow> D3WindBarb \<Rightarrow> string option \<Rightarrow> node list \<Rightarrow>
     (nat \<times> node list) option" where
  "draw qs w container h =
     (case getBarbs w of
        None \<Rightarrow> None
      | Some barbs \<Rightarrow>
          (let h = (case barbs of None \<Rightarrow> drawCircle w h | Some b \<Rightarrow> snd (drawBarbs w b h));
               h = (case container of
                      None \<Rightarrow> h
                    | Some c \<Rightarrow>
                        if c \<noteq> [] then
                          (case qs h c of None \<Rightarrow> h | Some p \<Rightarrow> appendChild p (svg w) h)
                        else h)
           in Some (svg w, h)))"


section \<open>The nodes the draw methods leave in the store\<close>

text \<open>
  Closed forms of what the methods write, for the lemmas of the later sections: each
  is proved there to be what the method of the class produces (\<open>drawTriangles_eq\<close>,
  \<open>drawBars_eq\<close>, \<open>drawBarbs_eq\<close>). \<open>optGroup a q f\<close> is the \<open>g\<close> at address \<open>a\<close> with
  its \<open>q\<close> children, or nothing when \<open>q = 0\<close> (the method is then not called);
  \<open>rightFull\<close> and \<open>rightHalf\<close> are the two \<open>paddingR\<close> of \<open>drawBarbs\<close>.
\<close>

definition addKid :: "nat \<Rightarrow> node \<Rightarrow> node" where
  "addKid c n = n\<lparr>kids := kids n @ [c]\<rparr>"

definition newNode :: "string \<Rightarrow> node" where
  "newNode t = \<lparr>tag = t, attrs = [], kids = []\<rparr>"

definition triangleNode :: "D3WindBarb \<Rightarrow> nat \<Rightarrow> node" where
  "triangleNode w i =
     \<lparr>tag = ''path'',
      attrs = [(''d'', drawPath w i),
               (''stroke'', Str (triangle_stroke (triangle (fullOptions w)))),
               (''fill'', Str (triangle_fill (triangle (fullOptions w)))),
               (''class'', Str (triangle_className (triangle (fullOptions w))))],
      kids = []\<rparr>"

definition barNode :: "D3WindBarb \<Rightarrow> real \<Rightarrow> string \<Rightarrow> real \<Rightarrow> nat \<Rightarrow> node" where
  "barNode w y2 cls right i =
     \<lparr>tag = ''line'',
      attrs = [(''x1'', Num (barX w right i)),
               (''y1'', Num (height (size_opt (fullOptions w)))),
               (''x2'', Num (barX w right i)),
               (''y2'', Num y2),
               (''stroke'', Str (bar_stroke (bar (fullOptions w)))),
               (''stroke-width'', Num (bar_width (bar (fullOptions w)))),
               (''class'', Str cls),
               (''transform-origin'',
                  Tmpl [Val (barX w right i), Lit '' '', Val (height (size_opt (fullOptions w)))]),
               (''transform'', Tmpl [Lit ''rotate('', Val (bar_angle (bar (fullOptions w))), Lit '')''])],
      kids = []\<rparr>"

definition groupNode :: "nat \<Rightarrow> nat \<Rightarrow> node" where
  "groupNode a q = \<lparr>tag = ''g'', attrs = [], kids = [Suc a..<Suc a + q]\<rparr>"

definition optGroup :: "nat \<Rightarrow> nat \<Rightarrow> (nat \<Rightarrow> node) \<Rightarrow> node list" where
  "optGroup a q f = (if q \<noteq> 0 then groupNode a q # map f [0..<q] else [])"

definition optKid :: "nat \<Rightarrow> nat \<Rightarrow> nat list" where
  "optKid a q = (if q \<noteq> 0 then [a] else [])"

definition shaftNode :: "D3WindBarb \<Rightarrow> node" where
  "shaftNode w =
     setAttr ''class'' (map_option Str (rootBarClassName (fullOptions w)))
       \<lparr>tag = ''line'',
        attrs = [(''x1'', Num 0),
                 (''y1'', Num (height (size_opt (fullOptions w)))),
                 (''x2'', Num (width (size_opt (fullOptions w)))),
                 (''y2'', Num (height (size_opt (fullOptions w)))),
                 (''stroke-width'', Num (bar_width (bar (fullOptions w)))),
                 (''stroke'', Str (bar_stroke (bar (fullOptions w))))],
        kids = []\<rparr>"

definition rightFull :: "D3WindBarb \<Rightarrow> Barbs \<Rightarrow> real" where
  "rightFull w b =
     real (b50 b) * (triangleWidth (dims (fullOptions w)) + triangle_padding (triangle (fullOptions w)))"

definition rightHalf :: "D3WindBarb \<Rightarrow> Barbs \<Rightarrow> real" where
  "rightHalf w b =
     real (b50 b) * (triangleWidth (dims (fullOptions w)) + triangle_padding (triangle (fullOptions w))) +
     real (b10 b) * (bar_padding (bar (fullOptions w)) + bar_width (bar (fullOptions w)))"

definition trianglesAt :: "D3WindBarb \<Rightarrow> Barbs \<Rightarrow> nat \<Rightarrow> node list" where
  "trianglesAt w b L = optGroup (L + 2) (b50 b) (triangleNode w)"

definition fullBarsAt :: "D3WindBarb \<Rightarrow> Barbs \<Rightarrow> nat \<Rightarrow> node list" where
  "fullBarsAt w b a =
     optGroup a (b10 b)
       (barNode w (height (size_opt (fullOptions w)) - barHeight (dims (fullOptions w)))
          (fullBarClassName (bar (fullOptions w))) (rightFull w b))"

definition halfBarsAt :: "D3WindBarb \<Rightarrow> Barbs \<Rightarrow> nat \<Rightarrow> node list" where
  "halfBarsAt w b a =
     optGroup a (b5 b)
       (barNode w (height (size_opt (fullOptions w)) - barHeight (dims (fullOptions w)) / 2)
          (shortBarClassName (bar (fullOptions w))) (rightHalf w b))"

definition containerNode :: "D3WindBarb \<Rightarrow> Barbs \<Rightarrow> nat \<Rightarrow> node" where
  "containerNode w b L =
     \<lparr>tag = ''g'',
      attrs = [(''transform-origin'',
                  Tmpl [Val (width (size_opt (fullOptions w)) / 2), Lit ''px '',
                        Val (height (size_opt (fullOptions w))), Lit ''px'']),
               (''transform'',
                  Tmpl [Lit ''translate(0, '', Val (- height (size_opt (fullOptions w)) / 2),
                        Lit '')rotate('', Val (- 90 + angle w), Lit '')''])],
      kids = [Suc L] @ optKid (L + 2) (b50 b) @
             optKid (L + 2 + length (trianglesAt w b L)) (b10 b) @
             optKid (L + 2 + length (trianglesAt w b L) +
                     length (fullBarsAt w b (L + 2 + length (trianglesAt w b L)))) (b5 b)\<rparr>"

definition barbSegment :: "D3WindBarb \<Rightarrow> Barbs \<Rightarrow> nat \<Rightarrow> node list" where
  "barbSegment w b L =
     containerNode w b L # shaftNode w #
     trianglesAt w b L @
     fullBarsAt w b (L + 2 + length (trianglesAt w b L)) @
     halfBarsAt w b (L + 2 + length (trianglesAt w b L) +
                     length (fullBarsAt w b (L + 2 + length (trianglesAt w b L))))"


section \<open>The tree under an element\<close>








definition circleNode :: "D3WindBarb \<Rightarrow> node" where
  "circleNode w =
     \<lparr>tag = ''circle'',
      attrs = [(''r'', Num (radius (circle (fullOptions w)))),
               (''cx'', Num (width (size_opt (fullOptions w)) / 2)),
               (''cy'', Num (height (size_opt (fullOptions w)) / 2)),
               (''stroke'', Str (circle_stroke (circle (fullOptions w)))),
               (''fill'', Str (circle_fill (circle (fullOptions w)))),
               (''stroke-width'', Num (strokeWidth (circle (fullOptions w)))),
               (''class'', Str (circle_className (circle (fullOptions w))))],
      kids = []\<rparr>"

definition rootNode :: "PrivateWindBarbOptions \<Rightarrow> node" where
  "rootNode fo =
     \<lparr>tag = ''svg'',
      attrs = [(''viewBox'', Tmpl [Lit ''0 0 '', Val (width (size_opt fo)), Lit '' '',
                  Val (height (size_opt fo))]),
               (''preserveAspectRatio'', Str ''xMidYMid meet''),
               (''width'', Num (width (size_opt fo))),
               (''height'', Num (height (size_opt fo))),
               (''overflow'', Str ''visible'')] @
              (if svgId fo \<noteq> [] then [(''id'', Str (svgId fo))] else []),
      kids = []\<rparr>"

definition shapeSegment :: "D3WindBarb \<Rightarrow> Barbs option \<Rightarrow> nat \<Rightarrow> node list" where
  "shapeSegment w barbs L = (case barbs of None \<Rightarrow> [circleNode w] | Some b \<Rightarrow> barbSegment w b L)"




section \<open>Horizontal extents of the segments\<close>

text \<open>
  For the claim on overlap. The x range a segment takes up as it is emitted, before the
  \<open>rotate\<close> each bar carries: a triangle's path has its corners at \<open>initialX\<close> and at
  \<open>initialX - triangleWidth\<close>, a bar is a vertical line at \<open>x1 = x2\<close>. The list is in
  emission order: triangles, full bars, half bars. One segment is left of another when
  its right end is below the other's left end, and the list runs strictly leftward when
  every segment is left of all those emitted before it.
\<close>

definition triangleExtent :: "D3WindBarb \<Rightarrow> nat \<Rightarrow> real \<times> real" where
  "triangleExtent w i =
     (min (initialX w i - triangleWidth (dims (fullOptions w))) (initialX w i),
      max (initialX w i - triangleWidth (dims (fullOptions w))) (initialX w i))"

definition barExtent :: "D3WindBarb \<Rightarrow> real \<Rightarrow> nat \<Rightarrow> real \<times> real" where
  "barExtent w right i = (barX w right i, barX w right i)"

definition segmentExtents :: "D3WindBarb \<Rightarrow> Barbs \<Rightarrow> (real \<times> real) list" where
  "segmentExtents w b =
     map (triangleExtent w) [0..<b50 b] @
     map (barExtent w (rightFull w b)) [0..<b10 b] @
     map (barExtent w (rightHalf w b)) [0..<b5 b]"

definition leftOf :: "real \<times> real \<Rightarrow> real \<times> real \<Rightarrow> bool" where
  "leftOf s t = (snd s < fst t)"

definition strictlyLeftward :: "(real \<times> real) list \<Rightarrow> bool" where
  "strictlyLeftward xs = sorted_wrt (\<lambda>s t. leftOf t s) xs"


section \<open>The counts and the knots value\<close>

lemma barbLoop_step50:
  "barbLoop (Fin (real (m + 50))) res = barbLoop (Fin (real m)) (res\<lparr>b50 := b50 res + 1\<rparr>)"
  by (subst barbLoop.simps) (simp add: num_gt_def num_ge_def)

lemma barbLoop_step10:
  "m < 40 \<Longrightarrow>
   barbLoop (Fin (real (m + 10))) res = barbLoop (Fin (real m)) (res\<lparr>b10 := b10 res + 1\<rparr>)"
  by (subst barbLoop.simps) (simp add: num_gt_def num_ge_def)

lemma barbLoop_step5:
  "m < 5 \<Longrightarrow>
   barbLoop (Fin (real (m + 5))) res = barbLoop (Fin (real m)) (res\<lparr>b5 := b5 res + 1\<rparr>)"
  by (subst barbLoop.simps) (simp add: num_gt_def num_ge_def)

lemma barbLoop_stop: "m < 5 \<Longrightarrow> barbLoop (Fin (real m)) res = Some res"
  by (subst barbLoop.simps) (simp add: num_gt_def num_ge_def)

lemma mod10_add50: "(m + 50) mod 10 = (m::nat) mod 10"
proof -
  have "(m + 10 * 5) mod 10 = m mod 10" by (rule mod_mult_self2)
  then show ?thesis by simp
qed

lemma barbLoop_nat:
  "barbLoop (Fin (real n)) res =
     Some (res\<lparr>b50 := b50 res + n div 50, b10 := b10 res + (n mod 50) div 10,
       b5 := b5 res + (n mod 10) div 5\<rparr>)"
proof (induction n arbitrary: res rule: less_induct)
  case (less n)
  consider (a) "50 \<le> n" | (b) "10 \<le> n" "n < 50" | (c) "5 \<le> n" "n < 10" | (d) "n < 5"
    by linarith
  then show ?case
  proof cases
    case a
    then obtain m where n: "n = m + 50" using le_Suc_ex add.commute by metis
    have "barbLoop (Fin (real n)) res = barbLoop (Fin (real m)) (res\<lparr>b50 := b50 res + 1\<rparr>)"
      unfolding n by (rule barbLoop_step50)
    also have "\<dots> = Some (res\<lparr>b50 := b50 res + 1 + m div 50,
        b10 := b10 res + (m mod 50) div 10, b5 := b5 res + (m mod 10) div 5\<rparr>)"
      using n by (subst less.IH) simp_all
    finally show ?thesis by (simp add: n mod10_add50)
  next
    case b
    then obtain m where n: "n = m + 10" using le_Suc_ex add.commute by metis
    have m: "m < 40" using b n by simp
    have "barbLoop (Fin (real n)) res = barbLoop (Fin (real m)) (res\<lparr>b10 := b10 res + 1\<rparr>)"
      unfolding n using m by (rule barbLoop_step10)
    also have "\<dots> = Some (res\<lparr>b50 := b50 res + m div 50,
        b10 := b10 res + 1 + (m mod 50) div 10, b5 := b5 res + (m mod 10) div 5\<rparr>)"
      using n by (subst less.IH) simp_all
    finally show ?thesis using m by (simp add: n)
  next
    case c
    then obtain m where n: "n = m + 5" using le_Suc_ex add.commute by metis
    have m: "m < 5" using c n by simp
    have "barbLoop (Fin (real n)) res = barbLoop (Fin (real m)) (res\<lparr>b5 := b5 res + 1\<rparr>)"
      unfolding n using m by (rule barbLoop_step5)
    also have "\<dots> = Some (res\<lparr>b5 := b5 res + 1\<rparr>)"
      using m by (rule barbLoop_stop)
    finally show ?thesis using m by (simp add: n)
  next
    case d
    then show ?thesis by (simp add: barbLoop_stop)
  qed
qed

lemma getBarbs_nat:
  assumes "knots w = Fin (real K)" and "5 \<le> K"
  shows "getBarbs w = Some (Some \<lparr>b50 = K div 50, b10 = (K mod 50) div 10, b5 = (K mod 10) div 5\<rparr>)"
  using assms by (simp add: getBarbs_def barbLoop_nat)


lemma new_fields:
  "speed (fst (new_D3WindBarb sp a opts h)) = sp"
  "angle (fst (new_D3WindBarb sp a opts h)) = a"
  "options (fst (new_D3WindBarb sp a opts h)) = opts"
  "fullOptions (fst (new_D3WindBarb sp a opts h)) = mergeOptions opts"
  by (simp_all add: new_D3WindBarb_def Let_def split_def)

lemma mergeOptions_conversionFactor:
  "conversionFactor (mergeOptions opts) = nullish (Option.bind opts pConversionFactor) 1"
  by (simp add: mergeOptions_def Let_def DEFAULT_CONFIG_def)







section \<open>The store after each draw method\<close>

lemma attr_last: "a = length xs \<Longrightarrow> attr a k v (xs @ [n]) = xs @ [setAttr k v n]"
  by (simp add: attr_def)

lemma append_sel_eq:
  "append_sel p t h = (length h, h[p := addKid (length h) (h ! p)] @ [newNode t])"
  by (simp add: append_sel_def addKid_def newNode_def)

lemma setAttr_simps:
  "tag (setAttr k v n) = tag n" "kids (setAttr k v n) = kids n"
  "attrs (setAttr k (Some x) n) = AList.update k x (attrs n)"
  "attrs (setAttr k None n) = AList.delete k (attrs n)"
  by (simp_all add: setAttr_def)

lemma drawCircle_eq:
  "drawCircle w h =
     h[svg w := addKid (length h) (h ! svg w)] @
     [\<lparr>tag = ''circle'',
       attrs = [(''r'', Num (radius (circle (fullOptions w)))),
                (''cx'', Num (width (size_opt (fullOptions w)) / 2)),
                (''cy'', Num (height (size_opt (fullOptions w)) / 2)),
                (''stroke'', Str (circle_stroke (circle (fullOptions w)))),
                (''fill'', Str (circle_fill (circle (fullOptions w)))),
                (''stroke-width'', Num (strokeWidth (circle (fullOptions w)))),
                (''class'', Str (circle_className (circle (fullOptions w))))],
       kids = []\<rparr>]"
  by (simp add: drawCircle_def Let_def append_sel_eq attr_last setAttr_def newNode_def)

lemma createSvg_eq:
  "createSvg fo h =
     (length h,
      h @ [\<lparr>tag = ''svg'',
        attrs = [(''viewBox'', Tmpl [Lit ''0 0 '', Val (width (size_opt fo)), Lit '' '', Val (height (size_opt fo))]),
                 (''preserveAspectRatio'', Str ''xMidYMid meet''),
                 (''width'', Num (width (size_opt fo))),
                 (''height'', Num (height (size_opt fo))),
                 (''overflow'', Str ''visible'')] @
                (if svgId fo \<noteq> [] then [(''id'', Str (svgId fo))] else []),
        kids = []\<rparr>])"
  by (simp add: createSvg_def Let_def create_def attr_last setAttr_def)

lemma update_after_append:
  "p < length h \<Longrightarrow> (h[p := a] @ [n])[p := F ((h[p := a] @ [n]) ! p)] = h[p := F a] @ [n]"
  by (simp add: list_update_append nth_append)

lemma enterAppend_eq:
  "p < length h \<Longrightarrow>
   enterAppend p t xs h =
     ([length h..<length h + length xs],
      h[p := (h ! p)\<lparr>kids := kids (h ! p) @ [length h..<length h + length xs]\<rparr>] @
      replicate (length xs) (newNode t))"
proof (induction xs arbitrary: h)
  case Nil
  then show ?case by simp
next
  case (Cons x xs)
  define h1 where "h1 = h[p := addKid (length h) (h ! p)] @ [newNode t]"
  define ks where "ks = [Suc (length h)..<Suc (length h) + length xs]"
  have p1: "p < length h1" using Cons.prems by (simp add: h1_def)
  have l1: "length h1 = Suc (length h)" by (simp add: h1_def)
  have u: "[length h..<length h + length (x # xs)] = length h # ks"
    by (simp add: upt_conv_Cons ks_def del: upt_Suc)
  have ih: "enterAppend p t xs h1 =
      (ks, h1[p := (h1 ! p)\<lparr>kids := kids (h1 ! p) @ ks\<rparr>] @ replicate (length xs) (newNode t))"
    using Cons.IH [OF p1] unfolding l1 ks_def .
  have "h1[p := (\<lambda>m. m\<lparr>kids := kids m @ ks\<rparr>) (h1 ! p)] =
      h[p := (\<lambda>m. m\<lparr>kids := kids m @ ks\<rparr>) (addKid (length h) (h ! p))] @ [newNode t]"
    unfolding h1_def using Cons.prems by (rule update_after_append)
  then have upd: "h1[p := (h1 ! p)\<lparr>kids := kids (h1 ! p) @ ks\<rparr>] =
      h[p := (h ! p)\<lparr>kids := kids (h ! p) @ length h # ks\<rparr>] @ [newNode t]"
    by (simp add: addKid_def)
  have "enterAppend p t (x # xs) h =
      (length h # ks, h1[p := (h1 ! p)\<lparr>kids := kids (h1 ! p) @ ks\<rparr>] @ replicate (length xs) (newNode t))"
    by (simp only: enterAppend.simps append_sel_eq Let_def prod.case h1_def [symmetric] ih)
  then show ?case
    unfolding u upd by simp
qed

lemma attrEach_tail:
  "attrEach [length pre..<length pre + q] j k f (pre @ map g [j..<j + q]) =
     pre @ map (\<lambda>i. setAttr k (f i) (g i)) [j..<j + q]"
proof (induction q arbitrary: pre j)
  case 0
  then show ?case by simp
next
  case (Suc q)
  have s: "[length pre..<length pre + Suc q] = length pre # [length (pre @ [setAttr k (f j) (g j)])..<length (pre @ [setAttr k (f j) (g j)]) + q]"
    by (simp add: upt_conv_Cons del: upt_Suc)
  have u: "[j..<j + Suc q] = j # [Suc j..<Suc j + q]"
    by (simp add: upt_conv_Cons del: upt_Suc)
  have a: "attr (length pre) k (f j) (pre @ g j # map g [Suc j..<Suc j + q]) =
      (pre @ [setAttr k (f j) (g j)]) @ map g [Suc j..<Suc j + q]"
    by (simp add: attr_def)
  show ?case
    unfolding u by (simp only: s attrEach.simps list.map a Suc.IH) simp
qed

lemma attrEach_tail0:
  "n = length pre \<Longrightarrow>
   attrEach [n..<n + q] 0 k f (pre @ map g [0..<q]) = pre @ map (\<lambda>i. setAttr k (f i) (g i)) [0..<q]"
  using attrEach_tail [of pre q 0 k f g] by simp

lemma group_eq:
  assumes "c < length h"
  shows "(case append_sel c ''g'' h of (g, h') \<Rightarrow>
            (case enterAppend g t (range_d3 q) h' of (sel, h'') \<Rightarrow> P sel h'')) =
     P [Suc (length h)..<Suc (length h) + q]
       ((h[c := addKid (length h) (h ! c)] @ [groupNode (length h) q]) @
        map (\<lambda>i. newNode t) [0..<q])"
proof -
  define h1 where "h1 = h[c := addKid (length h) (h ! c)] @ [newNode ''g'']"
  have l1: "length h1 = Suc (length h)" by (simp add: h1_def)
  have p1: "length h < length h1" by (simp add: l1)
  have n1: "h1 ! length h = newNode ''g''" by (simp add: h1_def nth_append)
  have u1: "h1[length h := x] = h[c := addKid (length h) (h ! c)] @ [x]" for x
    by (simp add: h1_def list_update_append)
  have e: "enterAppend (length h) t (range_d3 q) h1 =
      ([Suc (length h)..<Suc (length h) + q],
       (h[c := addKid (length h) (h ! c)] @ [groupNode (length h) q]) @ replicate q (newNode t))"
    by (simp only: enterAppend_eq [OF p1] l1 n1 u1)
       (simp add: range_d3_def newNode_def groupNode_def)
  have r: "replicate q (newNode t) = map (\<lambda>i. newNode t) [0..<q]"
    by (simp add: map_replicate_const)
  show ?thesis
    by (simp only: append_sel_eq h1_def [symmetric] Let_def prod.case e r)
qed

lemma drawTriangles_eq:
  assumes "c < length h"
  shows "drawTriangles w q c h =
     (h[c := addKid (length h) (h ! c)] @ [groupNode (length h) q]) @ map (triangleNode w) [0..<q]"
proof -
  define pre where "pre = h[c := addKid (length h) (h ! c)] @ [groupNode (length h) q]"
  have len: "Suc (length h) = length pre" by (simp add: pre_def)
  note t = attrEach_tail0 [of "Suc (length h)" pre, OF len]
  have "drawTriangles w q c h =
      pre @ map (\<lambda>i. setAttr ''class'' (Some (Str (triangle_className (triangle (fullOptions w)))))
        (setAttr ''fill'' (Some (Str (triangle_fill (triangle (fullOptions w)))))
        (setAttr ''stroke'' (Some (Str (triangle_stroke (triangle (fullOptions w)))))
        (setAttr ''d'' (Some (drawPath w i)) (newNode ''path''))))) [0..<q]"
    unfolding drawTriangles_def Let_def
    by (simp only: group_eq [OF assms] pre_def [symmetric] t)
  also have "\<dots> = pre @ map (triangleNode w) [0..<q]"
    by (simp add: setAttr_def newNode_def triangleNode_def)
  finally show ?thesis unfolding pre_def .
qed

lemma drawBars_eq:
  assumes "c < length h"
  shows "drawFullBars w q c right h =
     (h[c := addKid (length h) (h ! c)] @ [groupNode (length h) q]) @
     map (barNode w (height (size_opt (fullOptions w)) - barHeight (dims (fullOptions w)))
           (fullBarClassName (bar (fullOptions w))) right) [0..<q]"
    and "drawHalfBars w q c right h =
     (h[c := addKid (length h) (h ! c)] @ [groupNode (length h) q]) @
     map (barNode w (height (size_opt (fullOptions w)) - barHeight (dims (fullOptions w)) / 2)
           (shortBarClassName (bar (fullOptions w))) right) [0..<q]"
proof -
  define pre where "pre = h[c := addKid (length h) (h ! c)] @ [groupNode (length h) q]"
  have len: "Suc (length h) = length pre" by (simp add: pre_def)
  note t = attrEach_tail0 [of "Suc (length h)" pre, OF len]
  have "drawFullBars w q c right h =
      pre @ map (\<lambda>i.
        setAttr ''transform'' (Some (Tmpl [Lit ''rotate('', Val (bar_angle (bar (fullOptions w))), Lit '')'']))
        (setAttr ''transform-origin'' (Some (Tmpl [Val (barX w right i), Lit '' '', Val (height (size_opt (fullOptions w)))]))
        (setAttr ''class'' (Some (Str (fullBarClassName (bar (fullOptions w)))))
        (setAttr ''stroke-width'' (Some (Num (bar_width (bar (fullOptions w)))))
        (setAttr ''stroke'' (Some (Str (bar_stroke (bar (fullOptions w)))))
        (setAttr ''y2'' (Some (Num (height (size_opt (fullOptions w)) - barHeight (dims (fullOptions w)))))
        (setAttr ''x2'' (Some (Num (barX w right i)))
        (setAttr ''y1'' (Some (Num (height (size_opt (fullOptions w)))))
        (setAttr ''x1'' (Some (Num (barX w right i))) (newNode ''line'')))))))))) [0..<q]"
    unfolding drawFullBars_def Let_def
    by (simp only: group_eq [OF assms] pre_def [symmetric] t)
  also have "\<dots> = pre @ map (barNode w (height (size_opt (fullOptions w)) - barHeight (dims (fullOptions w)))
           (fullBarClassName (bar (fullOptions w))) right) [0..<q]"
    by (simp add: setAttr_def newNode_def barNode_def)
  finally show "drawFullBars w q c right h =
     (h[c := addKid (length h) (h ! c)] @ [groupNode (length h) q]) @
     map (barNode w (height (size_opt (fullOptions w)) - barHeight (dims (fullOptions w)))
           (fullBarClassName (bar (fullOptions w))) right) [0..<q]"
    unfolding pre_def .
  have "drawHalfBars w q c right h =
      pre @ map (\<lambda>i.
        setAttr ''transform'' (Some (Tmpl [Lit ''rotate('', Val (bar_angle (bar (fullOptions w))), Lit '')'']))
        (setAttr ''transform-origin'' (Some (Tmpl [Val (barX w right i), Lit '' '', Val (height (size_opt (fullOptions w)))]))
        (setAttr ''class'' (Some (Str (shortBarClassName (bar (fullOptions w)))))
        (setAttr ''stroke-width'' (Some (Num (bar_width (bar (fullOptions w)))))
        (setAttr ''stroke'' (Some (Str (bar_stroke (bar (fullOptions w)))))
        (setAttr ''y2'' (Some (Num (height (size_opt (fullOptions w)) - barHeight (dims (fullOptions w)) / 2)))
        (setAttr ''x2'' (Some (Num (barX w right i)))
        (setAttr ''y1'' (Some (Num (height (size_opt (fullOptions w)))))
        (setAttr ''x1'' (Some (Num (barX w right i))) (newNode ''line'')))))))))) [0..<q]"
    unfolding drawHalfBars_def Let_def
    by (simp only: group_eq [OF assms] pre_def [symmetric] t)
  also have "\<dots> = pre @ map (barNode w (height (size_opt (fullOptions w)) - barHeight (dims (fullOptions w)) / 2)
           (shortBarClassName (bar (fullOptions w))) right) [0..<q]"
    by (simp add: setAttr_def newNode_def barNode_def)
  finally show "drawHalfBars w q c right h =
     (h[c := addKid (length h) (h ! c)] @ [groupNode (length h) q]) @
     map (barNode w (height (size_opt (fullOptions w)) - barHeight (dims (fullOptions w)) / 2)
           (shortBarClassName (bar (fullOptions w))) right) [0..<q]"
    unfolding pre_def .
qed

lemma group_step:
  assumes D: "\<And>c h. c < length h \<Longrightarrow>
      D c h = (h[c := addKid (length h) (h ! c)] @ [groupNode (length h) q]) @ map f [0..<q]"
    and a: "a = Suc (length R + length ts)" and c: "c = length R"
  shows "(if q \<noteq> 0 then D c (R @ G # ts) else R @ G # ts) =
    R @ G\<lparr>kids := kids G @ optKid a q\<rparr> # ts @ optGroup a q f"
proof (cases "q = 0")
  case True
  then show ?thesis by (simp add: optKid_def optGroup_def)
next
  case False
  have "D c (R @ G # ts) =
      ((R @ G # ts)[c := addKid (length (R @ G # ts)) ((R @ G # ts) ! c)] @
       [groupNode (length (R @ G # ts)) q]) @ map f [0..<q]"
    by (rule D) (simp add: c)
  then show ?thesis
    using False by (simp add: c a optKid_def optGroup_def addKid_def)
qed

lemma attr_mid: "c = length R \<Longrightarrow> attr c k v (R @ G # ts) = R @ setAttr k v G # ts"
  by (simp add: attr_def)

lemma drawBarbs_eq:
  assumes "svg w < length h"
  shows "drawBarbs w b h =
     (length h, h[svg w := addKid (length h) (h ! svg w)] @ barbSegment w b (length h))"
proof -
  define L where "L = length h"
  define R where "R = h[svg w := addKid L (h ! svg w)]"
  have lenR: "length R = L" by (simp add: R_def L_def)
  define G1 where "G1 = addKid (Suc L) (newNode ''g'')"
  define T where "T = trianglesAt w b L"
  define aF where "aF = L + 2 + length T"
  define F where "F = fullBarsAt w b aF"
  define aH where "aH = aF + length F"
  define H where "H = halfBarsAt w b aH"
  define G2 where "G2 = G1\<lparr>kids := kids G1 @ optKid (L + 2) (b50 b)\<rparr>"
  define G3 where "G3 = G2\<lparr>kids := kids G2 @ optKid aF (b10 b)\<rparr>"
  define G4 where "G4 = G3\<lparr>kids := kids G3 @ optKid aH (b5 b)\<rparr>"
  have s1: "append_sel (svg w) ''g'' h = (L, R @ [newNode ''g''])"
    by (simp add: append_sel_eq L_def R_def)
  have s2: "append_sel L ''line'' (R @ [newNode ''g'']) = (Suc L, R @ [G1, newNode ''line''])"
    by (simp add: append_sel_eq lenR G1_def nth_append list_update_append)
  have a2: "attr (Suc L) k v (R @ [G1, n]) = R @ [G1, setAttr k v n]" for k v n
    by (simp add: attr_def lenR list_update_append nth_append)
  have sh: "setAttr ''class'' (map_option Str (rootBarClassName (fullOptions w)))
      (setAttr ''stroke'' (Some (Str (bar_stroke (bar (fullOptions w)))))
      (setAttr ''stroke-width'' (Some (Num (bar_width (bar (fullOptions w)))))
      (setAttr ''y2'' (Some (Num (height (size_opt (fullOptions w)))))
      (setAttr ''x2'' (Some (Num (width (size_opt (fullOptions w)))))
      (setAttr ''y1'' (Some (Num (height (size_opt (fullOptions w)))))
      (setAttr ''x1'' (Some (Num 0)) (newNode ''line''))))))) = shaftNode w"
    by (simp add: shaftNode_def setAttr_def newNode_def)
  have t: "(if b50 b \<noteq> 0 then drawTriangles w (b50 b) L (R @ [G1, shaftNode w])
            else R @ [G1, shaftNode w]) = R @ G2 # shaftNode w # T"
  proof -
    have "(if b50 b \<noteq> 0 then drawTriangles w (b50 b) L (R @ G1 # [shaftNode w])
           else R @ G1 # [shaftNode w]) =
        R @ G1\<lparr>kids := kids G1 @ optKid (L + 2) (b50 b)\<rparr> # [shaftNode w] @
        optGroup (L + 2) (b50 b) (triangleNode w)"
      by (rule group_step [where D = "drawTriangles w (b50 b)" and f = "triangleNode w"])
         (simp_all add: drawTriangles_eq lenR)
    then show ?thesis by (simp add: G2_def T_def trianglesAt_def)
  qed
  have f: "(if b10 b \<noteq> 0 then drawFullBars w (b10 b) L (rightFull w b) (R @ G2 # shaftNode w # T)
            else R @ G2 # shaftNode w # T) = R @ G3 # shaftNode w # T @ F"
  proof -
    have "(if b10 b \<noteq> 0
           then (\<lambda>c. drawFullBars w (b10 b) c (rightFull w b)) L (R @ G2 # (shaftNode w # T))
           else R @ G2 # (shaftNode w # T)) =
        R @ G2\<lparr>kids := kids G2 @ optKid aF (b10 b)\<rparr> # (shaftNode w # T) @
        optGroup aF (b10 b)
          (barNode w (height (size_opt (fullOptions w)) - barHeight (dims (fullOptions w)))
            (fullBarClassName (bar (fullOptions w))) (rightFull w b))"
      by (rule group_step [where D = "\<lambda>c. drawFullBars w (b10 b) c (rightFull w b)"])
         (simp_all add: drawBars_eq lenR aF_def)
    then show ?thesis by (simp add: G3_def F_def fullBarsAt_def)
  qed
  have hb: "(if b5 b \<noteq> 0 then drawHalfBars w (b5 b) L (rightHalf w b) (R @ G3 # shaftNode w # T @ F)
            else R @ G3 # shaftNode w # T @ F) = R @ G4 # shaftNode w # T @ F @ H"
  proof -
    have "(if b5 b \<noteq> 0
           then (\<lambda>c. drawHalfBars w (b5 b) c (rightHalf w b)) L (R @ G3 # (shaftNode w # T @ F))
           else R @ G3 # (shaftNode w # T @ F)) =
        R @ G3\<lparr>kids := kids G3 @ optKid aH (b5 b)\<rparr> # (shaftNode w # T @ F) @
        optGroup aH (b5 b)
          (barNode w (height (size_opt (fullOptions w)) - barHeight (dims (fullOptions w)) / 2)
            (shortBarClassName (bar (fullOptions w))) (rightHalf w b))"
      by (rule group_step [where D = "\<lambda>c. drawHalfBars w (b5 b) c (rightHalf w b)"])
         (simp_all add: drawBars_eq lenR aH_def aF_def)
    then show ?thesis by (simp add: G4_def H_def halfBarsAt_def)
  qed
  have rh: "rightFull w b + real (b10 b) *
      (bar_padding (bar (fullOptions w)) + bar_width (bar (fullOptions w))) = rightHalf w b"
    by (simp add: rightFull_def rightHalf_def)
  have am: "attr L k v (R @ G # ts) = R @ setAttr k v G # ts" for k v G ts
    by (rule attr_mid) (simp add: lenR)
  have "drawBarbs w b h =
      (L, R @ setAttr ''transform''
                (Some (Tmpl [Lit ''translate(0, '', Val (- height (size_opt (fullOptions w)) / 2),
                   Lit '')rotate('', Val (- 90 + angle w), Lit '')'']))
             (setAttr ''transform''
                (Some (Tmpl [Lit ''translate(0, '', Val (- height (size_opt (fullOptions w)) / 2), Lit '')'']))
             (setAttr ''transform-origin''
                (Some (Tmpl [Val (width (size_opt (fullOptions w)) / 2), Lit ''px '',
                   Val (height (size_opt (fullOptions w))), Lit ''px''])) G4)) #
           shaftNode w # T @ F @ H)"
    unfolding drawBarbs_def Let_def
    by (simp only: s1 prod.case s2 a2 sh rightFull_def [symmetric] rh t f hb am
        L_def [symmetric])
  also have "\<dots> = (L, R @ barbSegment w b L)"
    by (simp add: barbSegment_def containerNode_def setAttr_def G4_def G3_def G2_def G1_def addKid_def
        newNode_def H_def aH_def F_def aF_def T_def)
  finally show ?thesis unfolding L_def R_def .
qed


section \<open>When getBarbs returns\<close>

lemma barbLoop_Some_not_PosInf:
  assumes "barbLoop k res = Some r"
  shows "k \<noteq> PosInf"
proof (rule barbLoop.raw_induct [where P = "\<lambda>k res r. k \<noteq> PosInf", OF _ assms])
  fix f k res r
  assume ih: "\<And>k res r. f k res = Some r \<Longrightarrow> k \<noteq> PosInf"
    and step: "(if num_gt k (Fin 0) then
        (if num_ge (num_sub k (Fin 50)) (Fin 0) then
           f (num_sub k (Fin 50)) (res\<lparr>b50 := b50 res + 1\<rparr>)
         else if num_ge (num_sub k (Fin 10)) (Fin 0) then
           f (num_sub k (Fin 10)) (res\<lparr>b10 := b10 res + 1\<rparr>)
         else if num_ge (num_sub k (Fin 5)) (Fin 0) then
           f (num_sub k (Fin 5)) (res\<lparr>b5 := b5 res + 1\<rparr>)
         else Some res)
      else Some res) = Some r"
  show "k \<noteq> PosInf"
  proof
    assume "k = PosInf"
    with step have "f PosInf (res\<lparr>b50 := b50 res + 1\<rparr>) = Some r"
      by (simp add: num_gt_def num_ge_def)
    then show False using ih by blast
  qed
qed

lemma barbLoop_PosInf: "barbLoop PosInf res = None"
  using barbLoop_Some_not_PosInf [of PosInf res] by (cases "barbLoop PosInf res") auto

lemma barbLoop_NaN: "barbLoop NaN res = Some res"
  by (subst barbLoop.simps) (simp add: num_gt_def)


lemma getBarbs_calm: "num_lt (knots w) (Fin 5) \<Longrightarrow> getBarbs w = Some None"
  by (simp add: getBarbs_def)

lemma getBarbs_PosInf: "knots w = PosInf \<Longrightarrow> getBarbs w = None"
  by (simp add: getBarbs_def barbLoop_PosInf)

lemma getBarbs_NaN: "knots w = NaN \<Longrightarrow> getBarbs w = Some (Some \<lparr>b50 = 0, b10 = 0, b5 = 0\<rparr>)"
  by (simp add: getBarbs_def barbLoop_NaN)



section \<open>Calm wind, rejected input, missing container\<close>

lemma mergeOptions_fields:
  "size_opt (mergeOptions opts) = spreadSize \<lparr>width = 80, height = 33\<rparr> (Option.bind opts pSize)"
  "rootBarClassName (mergeOptions opts) = None"
  "svgId (mergeOptions opts) = nullish (Option.bind opts pSvgId) []"
  "circle (mergeOptions opts) = spreadCircle (circle DEFAULT_CONFIG) (Option.bind opts pCircle)"
  "bar (mergeOptions opts) = spreadBar (bar DEFAULT_CONFIG) (Option.bind opts pBar)"
  "triangle (mergeOptions opts) = spreadTriangle (triangle DEFAULT_CONFIG) (Option.bind opts pTriangle)"
  by (simp_all add: mergeOptions_def Let_def DEFAULT_CONFIG_def)

lemma new_svg:
  "svg (fst (new_D3WindBarb sp a opts h)) = length h"
  "snd (new_D3WindBarb sp a opts h) = snd (createSvg (mergeOptions opts) h)"
  by (simp_all add: new_D3WindBarb_def Let_def split_def createSvg_eq)

lemma appendChild_keeps:
  "length (appendChild p c h) = length h"
  "i < length h \<Longrightarrow> tag (appendChild p c h ! i) = tag (h ! i)"
  "i < length h \<Longrightarrow> attrs (appendChild p c h ! i) = attrs (h ! i)"
  by (cases "i = p"; simp add: appendChild_def Let_def)+

lemma draw_attaches:
  assumes "draw qs w None h = Some (r, h1)" and "c \<noteq> []" and "qs h1 c = Some p"
  shows "draw qs w (Some c) h = Some (r, appendChild p (svg w) h1)"
  using assms by (auto simp: draw_def Let_def split: option.splits)

lemma draw_calm: "num_lt (knots w) (Fin 5) \<Longrightarrow> draw qs w None h = Some (svg w, drawCircle w h)"
  by (simp add: draw_def getBarbs_calm)

lemma draw_windy:
  "getBarbs w = Some (Some b) \<Longrightarrow> draw qs w None h = Some (svg w, snd (drawBarbs w b h))"
  by (simp add: draw_def)


lemma draw_never_returns: "knots w = PosInf \<Longrightarrow> draw qs w c h = None"
  by (simp add: draw_def getBarbs_PosInf)

text \<open>
  C2. When the knots value is below 5, \<open>getBarbs\<close> returns \<open>undefined\<close> (a normal
  return, not a failure) and \<open>draw\<close> adds exactly one element to the store, as the last
  child of the svg root: a circle with \<open>cx = width / 2\<close>, \<open>cy = height / 2\<close> and the
  configured radius, stroke, fill, stroke width and class. No path and no line is added.
  With a container the same one circle is added (attaching the svg changes child lists
  only).
\<close>

theorem draw_calm_circle:
  assumes "num_lt (knots w) (Fin 5)"
  shows "getBarbs w = Some None \<and>
    draw qs w None h =
      Some (svg w,
        h[svg w := (h ! svg w)\<lparr>kids := kids (h ! svg w) @ [length h]\<rparr>] @
        [\<lparr>tag = ''circle'',
          attrs = [(''r'', Num (radius (circle (fullOptions w)))),
                   (''cx'', Num (width (size_opt (fullOptions w)) / 2)),
                   (''cy'', Num (height (size_opt (fullOptions w)) / 2)),
                   (''stroke'', Str (circle_stroke (circle (fullOptions w)))),
                   (''fill'', Str (circle_fill (circle (fullOptions w)))),
                   (''stroke-width'', Num (strokeWidth (circle (fullOptions w)))),
                   (''class'', Str (circle_className (circle (fullOptions w))))],
          kids = []\<rparr>]) \<and>
    (\<forall>c. \<exists>h'. draw qs w c h = Some (svg w, h') \<and> length h' = Suc (length h) \<and>
       tag (h' ! length h) = ''circle'' \<and>
       attrs (h' ! length h) =
         [(''r'', Num (radius (circle (fullOptions w)))),
          (''cx'', Num (width (size_opt (fullOptions w)) / 2)),
          (''cy'', Num (height (size_opt (fullOptions w)) / 2)),
          (''stroke'', Str (circle_stroke (circle (fullOptions w)))),
          (''fill'', Str (circle_fill (circle (fullOptions w)))),
          (''stroke-width'', Num (strokeWidth (circle (fullOptions w)))),
          (''class'', Str (circle_className (circle (fullOptions w))))])"
proof -
  define h1 where "h1 = drawCircle w h"
  have g: "getBarbs w = Some None" using assms by (rule getBarbs_calm)
  have l1: "length h1 = Suc (length h)" "length h < length h1"
    by (simp_all add: h1_def drawCircle_eq)
  have n1: "h1 ! length h =
      \<lparr>tag = ''circle'',
       attrs = [(''r'', Num (radius (circle (fullOptions w)))),
                (''cx'', Num (width (size_opt (fullOptions w)) / 2)),
                (''cy'', Num (height (size_opt (fullOptions w)) / 2)),
                (''stroke'', Str (circle_stroke (circle (fullOptions w)))),
                (''fill'', Str (circle_fill (circle (fullOptions w)))),
                (''stroke-width'', Num (strokeWidth (circle (fullOptions w)))),
                (''class'', Str (circle_className (circle (fullOptions w))))],
       kids = []\<rparr>"
    by (simp add: h1_def drawCircle_eq nth_append)
  have "\<exists>h'. draw qs w c h = Some (svg w, h') \<and> length h' = Suc (length h) \<and>
      tag (h' ! length h) = tag (h1 ! length h) \<and> attrs (h' ! length h) = attrs (h1 ! length h)"
    for c
    using l1 by (auto simp: draw_def g h1_def [symmetric] appendChild_keeps split: option.splits)
  then show ?thesis
    using assms by (simp add: g draw_calm drawCircle_eq addKid_def n1)
qed

theorem draw_calm_circle_witness:
  "num_lt (knots (fst (new_D3WindBarb (Fin 0) 90 None []))) (Fin 5) \<and>
   draw (\<lambda>h s. None) (fst (new_D3WindBarb (Fin 0) 90 None [])) None
       (snd (new_D3WindBarb (Fin 0) 90 None [])) =
     Some (0,
       [\<lparr>tag = ''svg'',
         attrs = [(''viewBox'', Tmpl [Lit ''0 0 '', Val 80, Lit '' '', Val 33]),
                  (''preserveAspectRatio'', Str ''xMidYMid meet''),
                  (''width'', Num 80), (''height'', Num 33), (''overflow'', Str ''visible'')],
         kids = [1]\<rparr>,
        \<lparr>tag = ''circle'',
         attrs = [(''r'', Num 10), (''cx'', Num 40), (''cy'', Num (33 / 2)),
                  (''stroke'', Str ''#000''), (''fill'', Str ''#FFFFFF00''),
                  (''stroke-width'', Num 2), (''class'', Str ''wind-barb-circle'')],
         kids = []\<rparr>])"
proof -
  let ?w = "fst (new_D3WindBarb (Fin 0) 90 None [])"
  have k: "num_lt (knots ?w) (Fin 5)"
    by (simp add: knots_def new_fields mergeOptions_conversionFactor nullish_def roundHalfAway_def)
  show ?thesis
    using draw_calm_circle [OF k, of "\<lambda>h s. None" "snd (new_D3WindBarb (Fin 0) 90 None [])"] k
    by (simp add: new_fields new_svg createSvg_eq mergeOptions_fields spreadSize_def spreadCircle_def
        nullish_def DEFAULT_CONFIG_def)
qed


lemma roundHalfAway_neg: "x \<le> 0 \<Longrightarrow> roundHalfAway x \<le> 0"
  by (auto simp: roundHalfAway_def)

lemma draw_NaN_bare_shaft:
  assumes "knots w = NaN"
  shows "draw qs w None h = Some (svg w, snd (drawBarbs w \<lparr>b50 = 0, b10 = 0, b5 = 0\<rparr> h))"
  using assms by (simp add: draw_windy getBarbs_NaN)

lemma draw_PosInf_speed:
  assumes "speed w = PosInf" and "0 < conversionFactor (fullOptions w)"
  shows "draw qs w c h = None"
  using assms by (simp add: draw_never_returns knots_def)

lemma finite_speed_returns: "speed w = Fin s \<Longrightarrow> knots w \<noteq> PosInf"
  by (simp add: knots_def)

text \<open>
  C3 as stated fails: nothing rejects a negative speed. At speed \<open>-3\<close> with the default
  options \<open>draw\<close> returns the svg root with the calm circle in it.
\<close>

theorem negative_speed_counterexample:
  "draw (\<lambda>h s. None) (fst (new_D3WindBarb (Fin (- 3)) 0 None [])) None
       (snd (new_D3WindBarb (Fin (- 3)) 0 None [])) =
     Some (0,
       [\<lparr>tag = ''svg'',
         attrs = [(''viewBox'', Tmpl [Lit ''0 0 '', Val 80, Lit '' '', Val 33]),
                  (''preserveAspectRatio'', Str ''xMidYMid meet''),
                  (''width'', Num 80), (''height'', Num 33), (''overflow'', Str ''visible'')],
         kids = [1]\<rparr>,
        \<lparr>tag = ''circle'',
         attrs = [(''r'', Num 10), (''cx'', Num 40), (''cy'', Num (33 / 2)),
                  (''stroke'', Str ''#000''), (''fill'', Str ''#FFFFFF00''),
                  (''stroke-width'', Num 2), (''class'', Str ''wind-barb-circle'')],
         kids = []\<rparr>])"
proof -
  let ?w = "fst (new_D3WindBarb (Fin (- 3)) 0 None [])"
  have k: "num_lt (knots ?w) (Fin 5)"
    by (simp add: knots_def new_fields mergeOptions_conversionFactor nullish_def roundHalfAway_def)
  show ?thesis
    by (simp add: draw_calm [OF k] drawCircle_eq addKid_def new_fields new_svg createSvg_eq
        mergeOptions_fields spreadSize_def spreadCircle_def nullish_def DEFAULT_CONFIG_def)
qed

text \<open>
  C3. A negative speed is not rejected: for every negative finite speed, and for
  \<open>-Infinity\<close>, with a positive conversion factor, \<open>getBarbs\<close> returns \<open>undefined\<close>
  and \<open>draw\<close> returns normally, having added the circle. (The class has no \<open>throw\<close>.
  The lemmas above record what the other non-finite values do: NaN draws a bare shaft,
  \<open>+Infinity\<close> never returns.)
\<close>

theorem negative_speed_draws_circle:
  assumes "speed w = Fin s \<and> s < 0 \<or> speed w = NegInf"
    and "0 < conversionFactor (fullOptions w)"
  shows "getBarbs w = Some None \<and> draw qs w None h = Some (svg w, drawCircle w h) \<and>
    length (drawCircle w h) = Suc (length h) \<and> tag (drawCircle w h ! length h) = ''circle''"
proof -
  have k: "num_lt (knots w) (Fin 5)"
  proof -
    consider (a) "speed w = Fin s" "s < 0" | (b) "speed w = NegInf" using assms(1) by blast
    then show ?thesis
    proof cases
      case a
      have "s * conversionFactor (fullOptions w) \<le> 0"
        using a(2) assms(2) by (simp add: mult_le_0_iff)
      then have "roundHalfAway (s * conversionFactor (fullOptions w)) \<le> 0"
        by (rule roundHalfAway_neg)
      then have "real_of_int (roundHalfAway (s * conversionFactor (fullOptions w))) < 5"
        by linarith
      then show ?thesis by (simp add: knots_def a(1))
    next
      case b
      then show ?thesis using assms(2) by (simp add: knots_def)
    qed
  qed
  show ?thesis
    using k by (simp add: getBarbs_calm draw_calm drawCircle_eq nth_append)
qed

theorem negative_speed_draws_circle_witness:
  "(speed (fst (new_D3WindBarb (Fin (- 3)) 0 None [])) = Fin (- 3) \<and> (- 3 :: real) < 0) \<and>
   0 < conversionFactor (fullOptions (fst (new_D3WindBarb (Fin (- 3)) 0 None []))) \<and>
   getBarbs (fst (new_D3WindBarb (Fin (- 3)) 0 None [])) = Some None"
proof -
  let ?w = "fst (new_D3WindBarb (Fin (- 3)) 0 None [])"
  have a: "speed ?w = Fin (- 3) \<and> (- 3 :: real) < 0 \<or> speed ?w = NegInf"
    by (simp add: new_fields)
  have b: "0 < conversionFactor (fullOptions ?w)"
    by (simp add: new_fields mergeOptions_conversionFactor nullish_def)
  show ?thesis
    using negative_speed_draws_circle [OF a b] b by (simp add: new_fields)
qed


text \<open>
  C4 as stated fails: nothing rejects a configuration. With canvas width 0, height
  \<open>-5\<close> and circle radius \<open>-1\<close>, construction and \<open>draw\<close> go through and the values
  reach the svg attributes.
\<close>

theorem bad_configuration_counterexample:
  "draw (\<lambda>h s. None)
     (fst (new_D3WindBarb (Fin 0) 0
        (Some \<lparr>pSize = Some \<lparr>p_width = Some 0, p_height = Some (- 5)\<rparr>,
           pRootBarClassName = None, pSvgId = None, pConversionFactor = None, pBar = None,
           pTriangle = None,
           pCircle = Some \<lparr>p_circle_stroke = None, p_circle_fill = None, p_radius = Some (- 1),
             p_strokeWidth = None, p_circle_className = None\<rparr>\<rparr>) []))
     None
     (snd (new_D3WindBarb (Fin 0) 0
        (Some \<lparr>pSize = Some \<lparr>p_width = Some 0, p_height = Some (- 5)\<rparr>,
           pRootBarClassName = None, pSvgId = None, pConversionFactor = None, pBar = None,
           pTriangle = None,
           pCircle = Some \<lparr>p_circle_stroke = None, p_circle_fill = None, p_radius = Some (- 1),
             p_strokeWidth = None, p_circle_className = None\<rparr>\<rparr>) [])) =
     Some (0,
       [\<lparr>tag = ''svg'',
         attrs = [(''viewBox'', Tmpl [Lit ''0 0 '', Val 0, Lit '' '', Val (- 5)]),
                  (''preserveAspectRatio'', Str ''xMidYMid meet''),
                  (''width'', Num 0), (''height'', Num (- 5)), (''overflow'', Str ''visible'')],
         kids = [1]\<rparr>,
        \<lparr>tag = ''circle'',
         attrs = [(''r'', Num (- 1)), (''cx'', Num 0), (''cy'', Num (- 5 / 2)),
                  (''stroke'', Str ''#000''), (''fill'', Str ''#FFFFFF00''),
                  (''stroke-width'', Num 2), (''class'', Str ''wind-barb-circle'')],
         kids = []\<rparr>])"
proof -
  let ?o = "Some \<lparr>pSize = Some \<lparr>p_width = Some 0, p_height = Some (- 5)\<rparr>,
           pRootBarClassName = None, pSvgId = None, pConversionFactor = None, pBar = None,
           pTriangle = None,
           pCircle = Some \<lparr>p_circle_stroke = None, p_circle_fill = None, p_radius = Some (- 1),
             p_strokeWidth = None, p_circle_className = None\<rparr>\<rparr>"
  let ?w = "fst (new_D3WindBarb (Fin 0) 0 ?o [])"
  have k: "num_lt (knots ?w) (Fin 5)"
    by (simp add: knots_def new_fields mergeOptions_conversionFactor nullish_def roundHalfAway_def)
  show ?thesis
    by (simp add: draw_calm [OF k] drawCircle_eq addKid_def new_fields new_svg createSvg_eq
        mergeOptions_fields spreadSize_def spreadCircle_def nullish_def DEFAULT_CONFIG_def)
qed

text \<open>
  C4. A configuration is not validated: whatever width, height and radius the options
  give, the constructor creates the svg root with that width and height, and \<open>draw\<close> on
  a calm wind returns normally with a circle of that radius at \<open>(width / 2, height / 2)\<close>.
\<close>

theorem configuration_not_validated:
  assumes "pSize p = Some \<lparr>p_width = Some wd, p_height = Some ht\<rparr>"
    and "pCircle p = Some pc" and "p_radius pc = Some r"
    and "num_lt (knots (fst (new_D3WindBarb sp a (Some p) h))) (Fin 5)"
  shows "let w = fst (new_D3WindBarb sp a (Some p) h);
             h1 = snd (new_D3WindBarb sp a (Some p) h)
         in svg w = length h \<and> length h1 = Suc (length h) \<and> tag (h1 ! svg w) = ''svg'' \<and>
            map_of (attrs (h1 ! svg w)) ''width'' = Some (Num wd) \<and>
            map_of (attrs (h1 ! svg w)) ''height'' = Some (Num ht) \<and>
            (\<exists>h2. draw qs w None h1 = Some (svg w, h2) \<and> length h2 = Suc (length h1) \<and>
               tag (h2 ! length h1) = ''circle'' \<and>
               map_of (attrs (h2 ! length h1)) ''r'' = Some (Num r) \<and>
               map_of (attrs (h2 ! length h1)) ''cx'' = Some (Num (wd / 2)) \<and>
               map_of (attrs (h2 ! length h1)) ''cy'' = Some (Num (ht / 2)))"
proof -
  define w where "w = fst (new_D3WindBarb sp a (Some p) h)"
  define h1 where "h1 = snd (new_D3WindBarb sp a (Some p) h)"
  have sz: "size_opt (fullOptions w) = \<lparr>width = wd, height = ht\<rparr>"
    using assms(1) by (simp add: w_def new_fields mergeOptions_fields spreadSize_def nullish_def)
  have rd: "radius (circle (fullOptions w)) = r"
    using assms(2,3) by (simp add: w_def new_fields mergeOptions_fields spreadCircle_def nullish_def)
  have s: "svg w = length h" by (simp add: w_def new_svg)
  have h1: "h1 = snd (createSvg (fullOptions w) h)" by (simp add: h1_def w_def new_svg new_fields)
  have l1: "length h1 = Suc (length h)" by (simp add: h1 createSvg_eq)
  have root: "tag (h1 ! svg w) = ''svg''"
    "map_of (attrs (h1 ! svg w)) ''width'' = Some (Num wd)"
    "map_of (attrs (h1 ! svg w)) ''height'' = Some (Num ht)"
    by (simp_all add: h1 s createSvg_eq sz)
  have k: "num_lt (knots w) (Fin 5)" using assms(4) by (simp add: w_def)
  have d: "draw qs w None h1 = Some (svg w, drawCircle w h1)" using k by (rule draw_calm)
  have c: "length (drawCircle w h1) = Suc (length h1)"
    "tag (drawCircle w h1 ! length h1) = ''circle''"
    "map_of (attrs (drawCircle w h1 ! length h1)) ''r'' = Some (Num r)"
    "map_of (attrs (drawCircle w h1 ! length h1)) ''cx'' = Some (Num (wd / 2))"
    "map_of (attrs (drawCircle w h1 ! length h1)) ''cy'' = Some (Num (ht / 2))"
    by (simp_all add: drawCircle_eq nth_append sz rd)
  show ?thesis
    unfolding Let_def w_def [symmetric] h1_def [symmetric]
    using s l1 root d c by blast
qed

theorem configuration_not_validated_witness:
  "pSize \<lparr>pSize = Some \<lparr>p_width = Some 0, p_height = Some (- 5)\<rparr>,
           pRootBarClassName = None, pSvgId = None, pConversionFactor = None, pBar = None,
           pTriangle = None,
           pCircle = Some \<lparr>p_circle_stroke = None, p_circle_fill = None, p_radius = Some (- 1),
             p_strokeWidth = None, p_circle_className = None\<rparr>\<rparr> =
     Some \<lparr>p_width = Some 0, p_height = Some (- 5)\<rparr> \<and>
   map_of (attrs (snd (new_D3WindBarb (Fin 0) 0
        (Some \<lparr>pSize = Some \<lparr>p_width = Some 0, p_height = Some (- 5)\<rparr>,
           pRootBarClassName = None, pSvgId = None, pConversionFactor = None, pBar = None,
           pTriangle = None,
           pCircle = Some \<lparr>p_circle_stroke = None, p_circle_fill = None, p_radius = Some (- 1),
             p_strokeWidth = None, p_circle_className = None\<rparr>\<rparr>) []) ! 0)) ''height'' =
     Some (Num (- 5))"
proof -
  let ?pc = "\<lparr>p_circle_stroke = None, p_circle_fill = None, p_radius = Some (- 1),
             p_strokeWidth = None, p_circle_className = None\<rparr>"
  let ?p = "\<lparr>pSize = Some \<lparr>p_width = Some 0, p_height = Some (- 5)\<rparr>,
           pRootBarClassName = None, pSvgId = None, pConversionFactor = None, pBar = None,
           pTriangle = None, pCircle = Some ?pc\<rparr>"
  have a: "pSize ?p = Some \<lparr>p_width = Some 0, p_height = Some (- 5)\<rparr>" by simp
  have b: "pCircle ?p = Some ?pc" by simp
  have c: "p_radius ?pc = Some (- 1)" by simp
  have k: "num_lt (knots (fst (new_D3WindBarb (Fin 0) 0 (Some ?p) []))) (Fin 5)"
    by (simp add: knots_def new_fields mergeOptions_conversionFactor nullish_def roundHalfAway_def)
  show ?thesis
    using configuration_not_validated [OF a b c k, of "\<lambda>h s. None"]
    by (simp add: Let_def new_svg)
qed






section \<open>Trees of the drawn shapes\<close>

















lemma shape_length_cong:
  "length (shapeSegment w barbs L) = length (shapeSegment w barbs L')"
  by (cases barbs)
     (simp_all add: shapeSegment_def barbSegment_def trianglesAt_def fullBarsAt_def halfBarsAt_def
       optGroup_def)


lemma new_eq:
  "new_D3WindBarb sp a opts h =
     (\<lparr>speed = sp, angle = a, options = opts, fullOptions = mergeOptions opts, svg = length h\<rparr>,
      h @ [rootNode (mergeOptions opts)])"
  by (simp add: new_D3WindBarb_def Let_def createSvg_eq rootNode_def)







section \<open>Rendering twice\<close>






section \<open>The rotation of the group\<close>











section \<open>The order of the segments along the shaft\<close>

lemma sorted_wrt_map_upt:
  assumes "\<And>i j. i < j \<Longrightarrow> j < n \<Longrightarrow> P (f i) (f j)"
  shows "sorted_wrt P (map f [0..<n])"
  using assms by (simp add: sorted_wrt_iff_nth_less)

lemma step_mono:
  fixes c :: real
  assumes "0 \<le> c" and "i < j"
  shows "c * real i + c \<le> c * real j"
proof -
  have "real i + 1 \<le> real j" using assms(2) by simp
  then have "c * (real i + 1) \<le> c * real j" using assms(1) by (rule mult_left_mono)
  then show ?thesis by (simp add: distrib_left)
qed

lemma step_nonneg:
  fixes c :: real
  shows "0 \<le> c \<Longrightarrow> 0 \<le> c * real i"
  by simp

lemma extents_leftward:
  assumes tp: "0 < triangle_padding (triangle (fullOptions w))"
    and bp: "0 < bar_padding (bar (fullOptions w))"
    and tw: "0 \<le> triangleWidth (dims (fullOptions w))"
    and bw: "0 \<le> bar_width (bar (fullOptions w))"
  shows "strictlyLeftward (segmentExtents w b)"
proof -
  define wd where "wd = width (size_opt (fullOptions w))"
  define t where "t = triangleWidth (dims (fullOptions w))"
  define W where "W = triangleWidth (dims (fullOptions w)) + triangle_padding (triangle (fullOptions w))"
  define V where "V = bar_width (bar (fullOptions w)) + bar_padding (bar (fullOptions w))"
  define c50 where "c50 = b50 b"
  define c10 where "c10 = b10 b"
  have W: "0 \<le> W" "t < W" and V: "0 < V" "0 \<le> V" and t0: "0 \<le> t"
    using tp bp tw bw by (simp_all add: W_def V_def t_def)
  have X: "initialX w i = wd - W * real i" for i
    by (simp add: initialX_def wd_def W_def)
  have TE: "triangleExtent w i = (wd - W * real i - t, wd - W * real i)" for i
    using t0 by (simp add: triangleExtent_def X t_def [symmetric] min_def max_def)
  have FE: "barExtent w (rightFull w b) i =
      (wd - (W * real c50 + V * real i), wd - (W * real c50 + V * real i))" for i
    by (simp add: barExtent_def barX_def rightFull_def wd_def W_def V_def c50_def mult.commute)
  have HE: "barExtent w (rightHalf w b) i =
      (wd - (W * real c50 + V * real c10 + V * real i),
       wd - (W * real c50 + V * real c10 + V * real i))" for i
    by (simp add: barExtent_def barX_def rightHalf_def wd_def W_def V_def c50_def c10_def
        add.commute mult.commute)
  have tt: "leftOf (triangleExtent w j) (triangleExtent w i)" if "i < j" for i j
    unfolding leftOf_def TE fst_conv snd_conv
    using step_mono [OF W(1) that] W(2) by linarith
  have ff: "leftOf (barExtent w (rightFull w b) j) (barExtent w (rightFull w b) i)" if "i < j" for i j
    unfolding leftOf_def FE fst_conv snd_conv
    using step_mono [OF V(2) that] V(1) by linarith
  have hh: "leftOf (barExtent w (rightHalf w b) j) (barExtent w (rightHalf w b) i)" if "i < j" for i j
    unfolding leftOf_def HE fst_conv snd_conv
    using step_mono [OF V(2) that] V(1) by linarith
  have tf: "leftOf (barExtent w (rightFull w b) j) (triangleExtent w i)" if "i < c50" for i j
    unfolding leftOf_def FE TE fst_conv snd_conv
    using step_mono [OF W(1) that] W(2) step_nonneg [OF V(2), of j] by linarith
  have th: "leftOf (barExtent w (rightHalf w b) j) (triangleExtent w i)" if "i < c50" for i j
    unfolding leftOf_def HE TE fst_conv snd_conv
    using step_mono [OF W(1) that] W(2) step_nonneg [OF V(2), of j] step_nonneg [OF V(2), of c10]
    by linarith
  have fh: "leftOf (barExtent w (rightHalf w b) j) (barExtent w (rightFull w b) i)" if "i < c10" for i j
    unfolding leftOf_def HE FE fst_conv snd_conv
    using step_mono [OF V(2) that] V(1) step_nonneg [OF V(2), of j] by linarith
  have s1: "sorted_wrt (\<lambda>s t. leftOf t s) (map (triangleExtent w) [0..<c50])"
    by (rule sorted_wrt_map_upt) (rule tt)
  have s2: "sorted_wrt (\<lambda>s t. leftOf t s) (map (barExtent w (rightFull w b)) [0..<c10])"
    by (rule sorted_wrt_map_upt) (rule ff)
  have s3: "sorted_wrt (\<lambda>s t. leftOf t s) (map (barExtent w (rightHalf w b)) [0..<b5 b])"
    by (rule sorted_wrt_map_upt) (rule hh)
  show ?thesis
    unfolding strictlyLeftward_def segmentExtents_def c50_def [symmetric] c10_def [symmetric]
    using s1 s2 s3 tf th fh by (auto simp: sorted_wrt_append)
qed


lemma node_coordinates:
  "map_of (attrs (triangleNode w i)) ''d'' = Some (drawPath w i)"
  "map_of (attrs (barNode w y c r i)) ''x1'' = Some (Num (barX w r i))"
  "map_of (attrs (barNode w y c r i)) ''x2'' = Some (Num (barX w r i))"
  by (simp_all add: triangleNode_def barNode_def)

text \<open>
  C7 as stated fails. With the bar angle set to \<open>-30\<close> (bars leaning the other way)
  and the default paddings, both 6, the triangle width is \<open>-33 / 2\<close>: the second of two
  triangles is drawn to the right of the first and overlaps it.
\<close>

theorem segments_overlap_counterexample:
  "0 < triangle_padding (triangle (fullOptions (fst (new_D3WindBarb (Fin 100) 0
       (Some \<lparr>pSize = None, pRootBarClassName = None, pSvgId = None, pConversionFactor = None,
          pBar = Some \<lparr>p_bar_stroke = None, p_bar_width = None, p_bar_angle = Some (- 30),
            p_bar_padding = None, p_fullBarClassName = None, p_shortBarClassName = None\<rparr>,
          pTriangle = None, pCircle = None\<rparr>) [])))) \<and>
   0 < bar_padding (bar (fullOptions (fst (new_D3WindBarb (Fin 100) 0
       (Some \<lparr>pSize = None, pRootBarClassName = None, pSvgId = None, pConversionFactor = None,
          pBar = Some \<lparr>p_bar_stroke = None, p_bar_width = None, p_bar_angle = Some (- 30),
            p_bar_padding = None, p_fullBarClassName = None, p_shortBarClassName = None\<rparr>,
          pTriangle = None, pCircle = None\<rparr>) [])))) \<and>
   getBarbs (fst (new_D3WindBarb (Fin 100) 0
       (Some \<lparr>pSize = None, pRootBarClassName = None, pSvgId = None, pConversionFactor = None,
          pBar = Some \<lparr>p_bar_stroke = None, p_bar_width = None, p_bar_angle = Some (- 30),
            p_bar_padding = None, p_fullBarClassName = None, p_shortBarClassName = None\<rparr>,
          pTriangle = None, pCircle = None\<rparr>) [])) = Some (Some \<lparr>b50 = 2, b10 = 0, b5 = 0\<rparr>) \<and>
   segmentExtents (fst (new_D3WindBarb (Fin 100) 0
       (Some \<lparr>pSize = None, pRootBarClassName = None, pSvgId = None, pConversionFactor = None,
          pBar = Some \<lparr>p_bar_stroke = None, p_bar_width = None, p_bar_angle = Some (- 30),
            p_bar_padding = None, p_fullBarClassName = None, p_shortBarClassName = None\<rparr>,
          pTriangle = None, pCircle = None\<rparr>) [])) \<lparr>b50 = 2, b10 = 0, b5 = 0\<rparr> =
     [(80, 193 / 2), (181 / 2, 107)] \<and>
   \<not> strictlyLeftward (segmentExtents (fst (new_D3WindBarb (Fin 100) 0
       (Some \<lparr>pSize = None, pRootBarClassName = None, pSvgId = None, pConversionFactor = None,
          pBar = Some \<lparr>p_bar_stroke = None, p_bar_width = None, p_bar_angle = Some (- 30),
            p_bar_padding = None, p_fullBarClassName = None, p_shortBarClassName = None\<rparr>,
          pTriangle = None, pCircle = None\<rparr>) [])) \<lparr>b50 = 2, b10 = 0, b5 = 0\<rparr>)"
proof -
  let ?o = "Some \<lparr>pSize = None, pRootBarClassName = None, pSvgId = None, pConversionFactor = None,
          pBar = Some \<lparr>p_bar_stroke = None, p_bar_width = None, p_bar_angle = Some (- 30),
            p_bar_padding = None, p_fullBarClassName = None, p_shortBarClassName = None\<rparr>,
          pTriangle = None, pCircle = None\<rparr>"
  let ?w = "fst (new_D3WindBarb (Fin 100) 0 ?o [])"
  have c: "cos (2 * pi / 3) = - (1 / 2)"
    using cos_120 by simp
  have tw: "triangleWidth (dims (fullOptions ?w)) = - (33 / 2)"
    by (simp add: new_fields mergeOptions_def Let_def DEFAULT_CONFIG_def getSizes_def spreadSize_def
        spreadBar_def nullish_def c)
  have sz: "width (size_opt (fullOptions ?w)) = 80"
    by (simp add: new_fields mergeOptions_fields spreadSize_def)
  have tp: "triangle_padding (triangle (fullOptions ?w)) = 6"
    by (simp add: new_fields mergeOptions_fields spreadTriangle_def DEFAULT_CONFIG_def)
  have bp: "bar_padding (bar (fullOptions ?w)) = 6"
    by (simp add: new_fields mergeOptions_fields spreadBar_def nullish_def DEFAULT_CONFIG_def)
  have k: "knots ?w = Fin (real (100::nat))"
    by (simp add: knots_def new_fields mergeOptions_conversionFactor nullish_def roundHalfAway_def)
  have g: "getBarbs ?w = Some (Some \<lparr>b50 = 2, b10 = 0, b5 = 0\<rparr>)"
    using getBarbs_nat [OF k] by simp
  have e: "segmentExtents ?w \<lparr>b50 = 2, b10 = 0, b5 = 0\<rparr> = [(80, 193 / 2), (181 / 2, 107)]"
    by (simp add: segmentExtents_def triangleExtent_def initialX_def tw sz tp upt_rec)
  show ?thesis
    unfolding e using g by (simp add: tp bp strictlyLeftward_def leftOf_def)
qed


text \<open>
  C7. \<open>drawBarbs\<close> leaves in the store, after the group and the shaft, the triangles
  first (triangle \<open>i\<close> at \<open>width - (triangleWidth + trianglePadding) * i\<close>, so the
  first touches the right end of the shaft), then the full bars, offset by
  \<open>count50 * (triangleWidth + trianglePadding)\<close>, then the half bars, offset by
  \<open>count10 * (barPadding + barWidth)\<close> more, each bar \<open>i\<close> a further
  \<open>i * (barWidth + barPadding)\<close> to the left. When both paddings are positive and the
  triangle width and the bar width are not negative, every segment lies strictly to the
  left of all the segments emitted before it, so no two overlap.
\<close>

theorem segments_leftward:
  assumes "svg w < length h"
    and "0 < triangle_padding (triangle (fullOptions w))"
    and "0 < bar_padding (bar (fullOptions w))"
    and "0 \<le> triangleWidth (dims (fullOptions w))"
    and "0 \<le> bar_width (bar (fullOptions w))"
  shows "let L = length h;
             T = optGroup (L + 2) (b50 b) (triangleNode w);
             F = optGroup (L + 2 + length T) (b10 b)
                   (barNode w (height (size_opt (fullOptions w)) - barHeight (dims (fullOptions w)))
                      (fullBarClassName (bar (fullOptions w)))
                      (real (b50 b) *
                         (triangleWidth (dims (fullOptions w)) +
                          triangle_padding (triangle (fullOptions w)))));
             H = optGroup (L + 2 + length T + length F) (b5 b)
                   (barNode w (height (size_opt (fullOptions w)) - barHeight (dims (fullOptions w)) / 2)
                      (shortBarClassName (bar (fullOptions w)))
                      (real (b50 b) *
                         (triangleWidth (dims (fullOptions w)) +
                          triangle_padding (triangle (fullOptions w))) +
                       real (b10 b) *
                         (bar_padding (bar (fullOptions w)) + bar_width (bar (fullOptions w)))))
         in snd (drawBarbs w b h) =
              h[svg w := (h ! svg w)\<lparr>kids := kids (h ! svg w) @ [L]\<rparr>] @
              containerNode w b L # shaftNode w # T @ F @ H \<and>
            (\<forall>i. map_of (attrs (triangleNode w i)) ''d'' = Some (drawPath w i) \<and>
                 initialX w i =
                   width (size_opt (fullOptions w)) -
                   (triangleWidth (dims (fullOptions w)) +
                    triangle_padding (triangle (fullOptions w))) * real i) \<and>
            (\<forall>y c r i.
                 map_of (attrs (barNode w y c r i)) ''x1'' = Some (Num (barX w r i)) \<and>
                 map_of (attrs (barNode w y c r i)) ''x2'' = Some (Num (barX w r i)) \<and>
                 barX w r i =
                   width (size_opt (fullOptions w)) -
                   (r + real i * (bar_width (bar (fullOptions w)) + bar_padding (bar (fullOptions w))))) \<and>
            strictlyLeftward (segmentExtents w b)"
proof -
  have a: "snd (drawBarbs w b h) =
      h[svg w := (h ! svg w)\<lparr>kids := kids (h ! svg w) @ [length h]\<rparr>] @ barbSegment w b (length h)"
    by (simp add: drawBarbs_eq [OF assms(1)] addKid_def)
  have s: "strictlyLeftward (segmentExtents w b)"
    using assms(2-5) by (rule extents_leftward)
  show ?thesis
    unfolding Let_def a
    using s
    by (simp add: barbSegment_def trianglesAt_def fullBarsAt_def halfBarsAt_def rightFull_def
        rightHalf_def node_coordinates initialX_def barX_def)
qed

theorem segments_leftward_witness:
  "svg (fst (new_D3WindBarb (Fin 85) 90 None [])) < length (snd (new_D3WindBarb (Fin 85) 90 None [])) \<and>
   0 < triangle_padding (triangle (fullOptions (fst (new_D3WindBarb (Fin 85) 90 None [])))) \<and>
   0 < bar_padding (bar (fullOptions (fst (new_D3WindBarb (Fin 85) 90 None [])))) \<and>
   0 \<le> triangleWidth (dims (fullOptions (fst (new_D3WindBarb (Fin 85) 90 None [])))) \<and>
   0 \<le> bar_width (bar (fullOptions (fst (new_D3WindBarb (Fin 85) 90 None [])))) \<and>
   segmentExtents (fst (new_D3WindBarb (Fin 85) 90 None [])) \<lparr>b50 = 1, b10 = 3, b5 = 1\<rparr> =
     [(127 / 2, 80), (115 / 2, 115 / 2), (99 / 2, 99 / 2), (83 / 2, 83 / 2), (67 / 2, 67 / 2)] \<and>
   strictlyLeftward
     [(127 / 2, 80), (115 / 2, 115 / 2), (99 / 2, 99 / 2), (83 / 2, 83 / 2), (67 / 2, 67 / 2 :: real)]"
proof -
  let ?w = "fst (new_D3WindBarb (Fin 85) 90 None [])"
  let ?h = "snd (new_D3WindBarb (Fin 85) 90 None [])"
  have c: "cos (pi / 3) = 1 / 2" by (rule cos_60)
  have tw: "triangleWidth (dims (fullOptions ?w)) = 33 / 2"
    by (simp add: new_fields mergeOptions_def Let_def DEFAULT_CONFIG_def getSizes_def spreadSize_def
        spreadBar_def nullish_def c)
  have sz: "width (size_opt (fullOptions ?w)) = 80"
    by (simp add: new_fields mergeOptions_fields spreadSize_def)
  have tp: "triangle_padding (triangle (fullOptions ?w)) = 6"
    by (simp add: new_fields mergeOptions_fields spreadTriangle_def DEFAULT_CONFIG_def)
  have bp: "bar_padding (bar (fullOptions ?w)) = 6" "bar_width (bar (fullOptions ?w)) = 2"
    by (simp_all add: new_fields mergeOptions_fields spreadBar_def DEFAULT_CONFIG_def)
  have s: "svg ?w < length ?h" by (simp add: new_eq)
  have h1: "0 < triangle_padding (triangle (fullOptions ?w))" by (simp add: tp)
  have h2: "0 < bar_padding (bar (fullOptions ?w))" by (simp add: bp)
  have h3: "0 \<le> triangleWidth (dims (fullOptions ?w))" by (simp add: tw)
  have h4: "0 \<le> bar_width (bar (fullOptions ?w))" by (simp add: bp)
  have e: "segmentExtents ?w \<lparr>b50 = 1, b10 = 3, b5 = 1\<rparr> =
     [(127 / 2, 80), (115 / 2, 115 / 2), (99 / 2, 99 / 2), (83 / 2, 83 / 2), (67 / 2, 67 / 2)]"
    by (simp add: segmentExtents_def triangleExtent_def barExtent_def barX_def rightFull_def
        rightHalf_def initialX_def tw sz tp bp upt_rec)
  have "strictlyLeftward (segmentExtents ?w \<lparr>b50 = 1, b10 = 3, b5 = 1\<rparr>)"
    using segments_leftward [OF s h1 h2 h3 h4, of "\<lparr>b50 = 1, b10 = 3, b5 = 1\<rparr>"]
    by (simp add: Let_def)
  then show ?thesis
    using s h1 h2 h3 h4 e by simp
qed

end
